theory Spec2Isabelle
  imports Complex_Main "HOL-Library.Sublist"
begin

section \<open>Python values used by the runway selector\<close>

text \<open>
  The program is \<^verbatim>\<open>src/runway_selector.py\<close>. Exceptions are values of
  \<open>error\<close>; a function that can raise returns \<open>error + 'a\<close> with \<open>Inl\<close> for the
  exception. Text is ASCII (\<open>string\<close>).
\<close>

datatype error =
  ValueError | IndexError | OverflowError | EOFError | TypeError | UnboundLocalError

subsection \<open>Strings\<close>

definition NL :: char where
  "NL = CHR 0x0A"

definition startswith :: "string \<Rightarrow> string \<Rightarrow> bool" where
  \<comment> \<open>\<^verbatim>\<open>line.startswith(p)\<close>\<close>
  "startswith line p = prefix p line"

fun contains :: "string \<Rightarrow> string \<Rightarrow> bool" where
  \<comment> \<open>\<^verbatim>\<open>sub in s\<close> for two strings: \<open>contains s sub\<close>\<close>
  "contains [] sub = (sub = [])"
| "contains (c # cs) sub = (prefix sub (c # cs) \<or> contains cs sub)"

fun join :: "string \<Rightarrow> string list \<Rightarrow> string" where
  \<comment> \<open>\<^verbatim>\<open>sep.join(xs)\<close>\<close>
  "join sep [] = []"
| "join sep [x] = x"
| "join sep (x # y # ys) = x @ sep @ join sep (y # ys)"

definition rstrip :: "string \<Rightarrow> string \<Rightarrow> string" where
  \<comment> \<open>\<^verbatim>\<open>s.rstrip(chars)\<close>: drop the trailing characters that are in \<open>chars\<close>\<close>
  "rstrip s chars = rev (dropWhile (\<lambda>c. c \<in> set chars) (rev s))"

definition is_digit :: "char \<Rightarrow> bool" where
  "is_digit c = (c \<in> set ''0123456789'')"

definition digit_val :: "char \<Rightarrow> nat" where
  "digit_val c = of_char c - 48"

definition is_space :: "char \<Rightarrow> bool" where
  \<comment> \<open>the characters \<^verbatim>\<open>int\<close> skips around the number in an ASCII string:
      tab, line feed, vertical tab, form feed, carriage return and space\<close>
  "is_space c = (of_char c \<in> {9, 10, 11, 12, 13, 32 :: nat})"

definition strip :: "string \<Rightarrow> string" where
  "strip s = rev (dropWhile is_space (rev (dropWhile is_space s)))"

fun lit_rest :: "nat \<Rightarrow> string \<Rightarrow> nat option" where
  \<comment> \<open>the rest of a decimal literal after a digit: digits, single underscores between them\<close>
  "lit_rest acc [] = Some acc"
| "lit_rest acc (c # cs) =
     (if is_digit c then lit_rest (10 * acc + digit_val c) cs
      else if c = CHR ''_'' then
        (case cs of
           [] \<Rightarrow> None
         | d # ds \<Rightarrow> if is_digit d then lit_rest (10 * acc + digit_val d) ds else None)
      else None)"

definition int_literal :: "string \<Rightarrow> nat option" where
  \<comment> \<open>a decimal literal; one of more than 4300 digits is refused, as the default
      limit on the conversion refuses it\<close>
  "int_literal s =
     (if 4300 < length (filter is_digit s) then None
      else
        (case s of
           [] \<Rightarrow> None
         | c # cs \<Rightarrow> if is_digit c then lit_rest (digit_val c) cs else None))"

definition py_int :: "string \<Rightarrow> error + int" where
  \<comment> \<open>\<^verbatim>\<open>int(s)\<close> on an ASCII str: surrounding whitespace, an optional sign, a decimal
      literal; anything else raises ValueError\<close>
  "py_int s =
     (case strip s of
        [] \<Rightarrow> Inl ValueError
      | c # cs \<Rightarrow>
          if c = CHR ''-'' then
            (case int_literal cs of None \<Rightarrow> Inl ValueError | Some n \<Rightarrow> Inr (- int n))
          else if c = CHR ''+'' then
            (case int_literal cs of None \<Rightarrow> Inl ValueError | Some n \<Rightarrow> Inr (int n))
          else
            (case int_literal (c # cs) of None \<Rightarrow> Inl ValueError | Some n \<Rightarrow> Inr (int n)))"

definition digit_char :: "nat \<Rightarrow> char" where
  "digit_char n = ''0123456789'' ! n"

function show_nat :: "nat \<Rightarrow> string" where
  "show_nat n = (if n < 10 then [digit_char n] else show_nat (n div 10) @ [digit_char (n mod 10)])"
  by pat_completeness auto
termination
  by (relation "measure (\<lambda>n. n)") auto

definition py_str_int :: "int \<Rightarrow> string" where
  \<comment> \<open>\<^verbatim>\<open>str(i)\<close>, as an f-string formats an int\<close>
  "py_str_int i = (if i < 0 then CHR ''-'' # show_nat (nat (- i)) else show_nat (nat i))"

subsection \<open>Floats\<close>

text \<open>
  A finite Python float is a real number, and is modelled as that number; comparisons,
  \<^verbatim>\<open>min\<close> and \<^verbatim>\<open>abs\<close> of floats are then exact. The operations that round are not
  computed by the model: they are taken from a \<open>float_unit\<close>, which stands for the
  arithmetic of the machine and its mathematical library, and every property below
  holds for every float unit. Only what is exact in every implementation is written
  into the model: an int of magnitude up to \<open>2 ^ 53\<close> converts without rounding; \<open>x - x\<close>
  is \<open>0\<close>; a product with a factor \<open>0\<close> is \<open>0\<close> and with a factor \<open>1\<close> the other factor;
  the cosine of \<open>0\<close> is \<open>1\<close> and its sine \<open>0\<close>. Converting an int that does not fit a double
  raises OverflowError, in \<^verbatim>\<open>math.radians\<close> as in the product of an int and a float.
  No operation of the program gives an infinity or a NaN from finite operands; the two
  infinities its loops start from are values of their own.
\<close>

record float_unit =
  fu_int :: "int \<Rightarrow> real"
  fu_radians :: "real \<Rightarrow> real"
  fu_sub :: "real \<Rightarrow> real \<Rightarrow> real"
  fu_mul :: "real \<Rightarrow> real \<Rightarrow> real"
  fu_cos :: "real \<Rightarrow> real"
  fu_sin :: "real \<Rightarrow> real"

definition float_ok :: "int \<Rightarrow> bool" where
  \<comment> \<open>the ints that convert to a double: those that round below \<open>2 ^ 1024\<close>\<close>
  "float_ok i = (\<bar>i\<bar> < 2 ^ 1024 - 2 ^ 970)"

definition float_of :: "float_unit \<Rightarrow> int \<Rightarrow> real" where
  \<comment> \<open>the float an int converts to\<close>
  "float_of fl i = (if \<bar>i\<bar> \<le> 2 ^ 53 then real_of_int i else fu_int fl i)"

definition to_float :: "float_unit \<Rightarrow> int \<Rightarrow> error + real" where
  "to_float fl i = (if float_ok i then Inr (float_of fl i) else Inl OverflowError)"

definition radians :: "float_unit \<Rightarrow> real \<Rightarrow> real" where
  \<comment> \<open>\<^verbatim>\<open>math.radians\<close> on a float\<close>
  "radians fl x = fu_radians fl x"

definition fsub :: "float_unit \<Rightarrow> real \<Rightarrow> real \<Rightarrow> real" where
  \<comment> \<open>\<^verbatim>\<open>a - b\<close> on floats\<close>
  "fsub fl a b = (if a = b then 0 else fu_sub fl a b)"

definition fmul :: "float_unit \<Rightarrow> real \<Rightarrow> real \<Rightarrow> real" where
  \<comment> \<open>\<^verbatim>\<open>a * b\<close> on floats\<close>
  "fmul fl a b =
     (if a = 0 \<or> b = 0 then 0 else if b = 1 then a else if a = 1 then b else fu_mul fl a b)"

definition fcos :: "float_unit \<Rightarrow> real \<Rightarrow> real" where
  \<comment> \<open>\<^verbatim>\<open>math.cos\<close>\<close>
  "fcos fl x = (if x = 0 then 1 else fu_cos fl x)"

definition fsin :: "float_unit \<Rightarrow> real \<Rightarrow> real" where
  \<comment> \<open>\<^verbatim>\<open>math.sin\<close>\<close>
  "fsin fl x = (if x = 0 then 0 else fu_sin fl x)"

datatype pyfloat = NegInf | Fin real | PosInf

fun gt_float :: "real \<Rightarrow> pyfloat \<Rightarrow> bool" where
  \<comment> \<open>\<^verbatim>\<open>x > best\<close> for a finite \<open>x\<close>\<close>
  "gt_float x NegInf = True"
| "gt_float x (Fin y) = (x > y)"
| "gt_float x PosInf = False"

fun lt_float :: "real \<Rightarrow> pyfloat \<Rightarrow> bool" where
  \<comment> \<open>\<^verbatim>\<open>x < best\<close> for a finite \<open>x\<close>\<close>
  "lt_float x NegInf = False"
| "lt_float x (Fin y) = (x < y)"
| "lt_float x PosInf = True"

section \<open>The data model\<close>

record runway =
  rwy1 :: string
  rwy2 :: string
  hdg1 :: int
  hdg2 :: int
  rwy_airport :: string

datatype wind_direction = VRB | Deg int

record wind_data =
  direction :: wind_direction
  speed :: int
  raw_metar :: string

text \<open>
  What \<^verbatim>\<open>select_runway\<close> returns first: a designator, the list of designators of the
  ENGM configuration, or \<^verbatim>\<open>None\<close>.
\<close>

datatype selected = Rwy string | Rwys "string list" | NoRwy

section \<open>The program\<close>

subsection \<open>\<^verbatim>\<open>parse_metar\<close>\<close>

text \<open>
  \<^verbatim>\<open>re.search(r'(VRB|(\d{3}))(\d{2,3})KT', metar)\<close> tries the pattern at every position,
  from the left. At one position it reads \<^verbatim>\<open>VRB\<close> or else three digits, then three
  digits or else two (the quantifier is greedy), then \<^verbatim>\<open>KT\<close>. The result is the
  text of groups 1 and 3.
\<close>

definition digits_at :: "nat \<Rightarrow> string \<Rightarrow> bool" where
  \<comment> \<open>\<^verbatim>\<open>\d{n}\<close> matches at the start of \<open>s\<close>\<close>
  "digits_at n s = (n \<le> length s \<and> list_all is_digit (take n s))"

definition match_speed :: "string \<Rightarrow> string option" where
  \<comment> \<open>\<^verbatim>\<open>(\d{2,3})KT\<close> at the start of \<open>s\<close>\<close>
  "match_speed s =
     (if digits_at 3 s \<and> prefix ''KT'' (drop 3 s) then Some (take 3 s)
      else if digits_at 2 s \<and> prefix ''KT'' (drop 2 s) then Some (take 2 s)
      else None)"

definition match_here :: "string \<Rightarrow> (string \<times> string) option" where
  \<comment> \<open>the whole pattern at the start of \<open>s\<close>\<close>
  "match_here s =
     (case (if prefix ''VRB'' s then match_speed (drop 3 s) else None) of
        Some sp \<Rightarrow> Some (''VRB'', sp)
      | None \<Rightarrow>
          (if digits_at 3 s
           then (case match_speed (drop 3 s) of
                   Some sp \<Rightarrow> Some (take 3 s, sp)
                 | None \<Rightarrow> None)
           else None))"

fun re_search :: "string \<Rightarrow> (string \<times> string) option" where
  "re_search [] = match_here []"
| "re_search (c # cs) =
     (case match_here (c # cs) of Some m \<Rightarrow> Some m | None \<Rightarrow> re_search cs)"

definition parse_metar :: "string \<Rightarrow> wind_data option" where
  \<comment> \<open>\<open>None\<close> is Python's \<^verbatim>\<open>None\<close>; an exception inside the \<^verbatim>\<open>try\<close> returns it too\<close>
  "parse_metar metar =
     (if metar = [] then None
      else
        (case re_search metar of
           None \<Rightarrow> None
         | Some (dir, sp) \<Rightarrow>
             (case py_int sp of
                Inl e \<Rightarrow> None
              | Inr n \<Rightarrow>
                  if dir = ''VRB''
                  then Some \<lparr>direction = VRB, speed = n, raw_metar = metar\<rparr>
                  else (case py_int dir of
                          Inl e \<Rightarrow> None
                        | Inr d \<Rightarrow> Some \<lparr>direction = Deg d, speed = n, raw_metar = metar\<rparr>))))"

subsection \<open>\<^verbatim>\<open>calculate_wind_components\<close>\<close>

definition calculate_wind_components ::
  "float_unit \<Rightarrow> int \<Rightarrow> int \<Rightarrow> int \<Rightarrow> error + (real \<times> real)" where
  "calculate_wind_components fl runway_hdg wind_dir wind_speed =
     (case to_float fl runway_hdg of Inl e \<Rightarrow> Inl e | Inr rh \<Rightarrow>
     (case to_float fl wind_dir of Inl e \<Rightarrow> Inl e | Inr wd \<Rightarrow>
     (case to_float fl wind_speed of Inl e \<Rightarrow> Inl e | Inr ws \<Rightarrow>
        let runway_rad = radians fl rh;
            wind_rad = radians fl wd;
            headwind = fmul fl ws (fcos fl (fsub fl wind_rad runway_rad));
            crosswind = fmul fl ws (fsin fl (fsub fl wind_rad runway_rad))
        in Inr (headwind, \<bar>crosswind\<bar>))))"

subsection \<open>\<^verbatim>\<open>select_runway_enzv\<close>\<close>

definition select_runway_enzv :: "float_unit \<Rightarrow> wind_data option \<Rightarrow> error + string" where
  "select_runway_enzv fl wind_data =
     (case wind_data of
        None \<Rightarrow> Inr ''18''
      | Some w \<Rightarrow>
          (case direction w of
             VRB \<Rightarrow> Inl TypeError
           | Deg d \<Rightarrow>
               (case calculate_wind_components fl 177 d (speed w) of Inl e \<Rightarrow> Inl e
                | Inr (rwy18_hw, rwy18_xw) \<Rightarrow>
               (case calculate_wind_components fl 357 d (speed w) of Inl e \<Rightarrow> Inl e
                | Inr (rwy36_hw, rwy36_xw) \<Rightarrow>
               (case calculate_wind_components fl 100 d (speed w) of Inl e \<Rightarrow> Inl e
                | Inr (rwy10_hw, rwy10_xw) \<Rightarrow>
               (case calculate_wind_components fl 280 d (speed w) of Inl e \<Rightarrow> Inl e
                | Inr (rwy28_hw, rwy28_xw) \<Rightarrow>
                  let best_18_36 = (if rwy18_hw > rwy36_hw then ''18'' else ''36'');
                      best_18_36_xw = (if best_18_36 = ''18'' then rwy18_xw else rwy36_xw)
                  in if best_18_36_xw > 15
                     then Inr (if rwy10_hw > rwy28_hw then ''10'' else ''28'')
                     else Inr best_18_36))))))"

subsection \<open>The fixed tables\<close>

definition PREFERRED_RUNWAYS :: "(string \<times> string) list" where
  "PREFERRED_RUNWAYS =
     [(''ENBR'', ''17''), (''ENTO'', ''18''), (''ENRY'', ''30''), (''ENZV'', ''18''),
      (''ENHD'', ''13''), (''ENAL'', ''24''), (''ENML'', ''07''), (''ENKB'', ''07''),
      (''ENVA'', ''09''), (''ENBO'', ''07''), (''ENTC'', ''18''), (''ENCN'', ''21''),
      (''ENRO'', ''31''), (''ENSG'', ''24''), (''ENFL'', ''07''), (''ENEV'', ''17''),
      (''ENDU'', ''28''), (''ENAT'', ''11''), (''ENNA'', ''34''), (''ENKR'', ''24''),
      (''ENSB'', ''09''), (''ENNO'', ''12''), (''ENSD'', ''26''), (''ENSO'', ''14''),
      (''ENMS'', ''33''), (''ENBN'', ''03''), (''ENST'', ''20''), (''ENRA'', ''31''),
      (''ENLK'', ''02''), (''ENSH'', ''36''), (''ENAN'', ''14''), (''ENOL'', ''15'')]"

definition preferred :: "string \<Rightarrow> string option" where
  "preferred airport = map_of PREFERRED_RUNWAYS airport"

definition IGNORED_AIRPORTS :: "string list" where
  "IGNORED_AIRPORTS =
     [''ENRE'', ''ENGK'', ''ENLI'', ''ENKJ'', ''ENHA'', ''ENEG'', ''ENJA'', ''ENBM'', ''ENAX'']"

subsection \<open>\<^verbatim>\<open>get_engm_config\<close>\<close>

text \<open>
  The console is the list of lines still to be read: \<^verbatim>\<open>input()\<close> takes the first, and
  raises EOFError when none is left (the loop catches ValueError only). What is printed
  is not modelled. The function returns its result and the lines left.
\<close>

fun get_engm_config :: "string list \<Rightarrow> (error + (string list \<times> string)) \<times> string list" where
  "get_engm_config [] = (Inl EOFError, [])"
| "get_engm_config (choice # rest) =
     (if choice \<in> set [''1'', ''2'', ''3'', ''4'', ''5'', ''6''] then
        (if choice = ''1'' then (Inr ([''19L'', ''19R''], ''MPO''), rest)
         else if choice = ''2'' then (Inr ([''01L'', ''01R''], ''MPO''), rest)
         else if choice = ''3'' then (Inr ([''19L'', ''19R''], ''SPO''), rest)
         else if choice = ''4'' then (Inr ([''01L'', ''01R''], ''SPO''), rest)
         else if choice = ''5'' then (Inr ([''19R''], ''SRO''), rest)
         else (Inr ([''01L''], ''SRO''), rest))
      else get_engm_config rest)"

subsection \<open>Loops that can raise\<close>

fun for_each :: "('a \<Rightarrow> 's \<Rightarrow> error + 's) \<Rightarrow> 'a list \<Rightarrow> 's \<Rightarrow> error + 's" where
  \<comment> \<open>\<^verbatim>\<open>for x in xs: body\<close>, the loop's variables as the state\<close>
  "for_each body [] st = Inr st"
| "for_each body (x # xs) st =
     (case body x st of Inl e \<Rightarrow> Inl e | Inr st' \<Rightarrow> for_each body xs st')"

subsection \<open>\<^verbatim>\<open>select_runway\<close>\<close>

definition py_str :: "selected \<Rightarrow> string" where
  \<comment> \<open>how an f-string formats the selection (a list is formatted only for designators
      without quotes or backslashes)\<close>
  "py_str sel =
     (case sel of
        Rwy r \<Rightarrow> r
      | NoRwy \<Rightarrow> ''None''
      | Rwys rs \<Rightarrow> ''['' @ join '', '' (map (\<lambda>r. [CHR 0x27] @ r @ [CHR 0x27]) rs) @ '']'')"

definition stripped_number :: "string \<Rightarrow> error + int" where
  \<comment> \<open>\<^verbatim>\<open>int(rwy.rstrip('LRC'))\<close>\<close>
  "stripped_number rwy = py_int (rstrip rwy ''LRC'')"

fun runway_minima :: "runway list \<Rightarrow> error + int list" where
  \<comment> \<open>the list comprehension
      \<^verbatim>\<open>[min(int(r.rwy1.rstrip('LRC')), int(r.rwy2.rstrip('LRC'))) for r in runway_data]\<close>\<close>
  "runway_minima [] = Inr []"
| "runway_minima (r # rs) =
     (case stripped_number (rwy1 r) of Inl e \<Rightarrow> Inl e | Inr n1 \<Rightarrow>
     (case stripped_number (rwy2 r) of Inl e \<Rightarrow> Inl e | Inr n2 \<Rightarrow>
     (case runway_minima rs of Inl e \<Rightarrow> Inl e | Inr ns \<Rightarrow> Inr (min n1 n2 # ns))))"

definition py_min :: "int list \<Rightarrow> error + int" where
  \<comment> \<open>\<^verbatim>\<open>min(xs)\<close>: ValueError on the empty list\<close>
  "py_min xs = (case xs of [] \<Rightarrow> Inl ValueError | y # ys \<Rightarrow> Inr (fold min ys y))"

definition pick_lowest :: "int \<Rightarrow> runway \<Rightarrow> string option \<Rightarrow> error + string option" where
  \<comment> \<open>the body of the loop that looks for the designator numbered \<open>lowest_rwy\<close>;
      the state is \<^verbatim>\<open>selected\<close>, \<open>None\<close> while unassigned\<close>
  "pick_lowest lowest_rwy r sel =
     (case stripped_number (rwy1 r) of Inl e \<Rightarrow> Inl e | Inr n1 \<Rightarrow>
        if n1 = lowest_rwy then Inr (Some (rwy1 r))
        else (case stripped_number (rwy2 r) of Inl e \<Rightarrow> Inl e | Inr n2 \<Rightarrow>
                if n2 = lowest_rwy then Inr (Some (rwy2 r)) else Inr sel))"

definition consider_runway ::
  "float_unit \<Rightarrow> int \<Rightarrow> int \<Rightarrow> runway \<Rightarrow> string option \<times> pyfloat
     \<Rightarrow> error + (string option \<times> pyfloat)" where
  \<comment> \<open>the body of the first loop over the runways; the state is
      \<^verbatim>\<open>(best_runway, best_headwind)\<close>, and \<open>25\<close> is \<^verbatim>\<open>max_crosswind\<close>\<close>
  "consider_runway fl wind_dir wind_speed r st =
     (case st of (best_runway, best_headwind) \<Rightarrow>
     (case calculate_wind_components fl (hdg1 r) wind_dir wind_speed of Inl e \<Rightarrow> Inl e
      | Inr (hdg1_hw, hdg1_xw) \<Rightarrow>
     (case calculate_wind_components fl (hdg2 r) wind_dir wind_speed of Inl e \<Rightarrow> Inl e
      | Inr (hdg2_hw, hdg2_xw) \<Rightarrow>
        if min hdg1_xw hdg2_xw > 25 then Inr (best_runway, best_headwind)
        else if hdg1_hw > hdg2_hw then
          (if gt_float hdg1_hw best_headwind \<and> hdg1_xw \<le> 25
           then Inr (Some (rwy1 r), Fin hdg1_hw)
           else Inr (best_runway, best_headwind))
        else
          (if gt_float hdg2_hw best_headwind \<and> hdg2_xw \<le> 25
           then Inr (Some (rwy2 r), Fin hdg2_hw)
           else Inr (best_runway, best_headwind)))))"

definition least_crosswind ::
  "float_unit \<Rightarrow> int \<Rightarrow> int \<Rightarrow> runway \<Rightarrow> pyfloat \<times> string option
     \<Rightarrow> error + (pyfloat \<times> string option)" where
  \<comment> \<open>the body of the fallback loop; the state is \<^verbatim>\<open>(min_crosswind, best_runway)\<close>\<close>
  "least_crosswind fl wind_dir wind_speed r st =
     (case st of (min_crosswind, best_runway) \<Rightarrow>
     (case calculate_wind_components fl (hdg1 r) wind_dir wind_speed of Inl e \<Rightarrow> Inl e
      | Inr (hw1, hdg1_xw) \<Rightarrow>
     (case calculate_wind_components fl (hdg2 r) wind_dir wind_speed of Inl e \<Rightarrow> Inl e
      | Inr (hw2, hdg2_xw) \<Rightarrow>
        let st1 = (if lt_float hdg1_xw min_crosswind then (Fin hdg1_xw, Some (rwy1 r))
                   else (min_crosswind, best_runway))
        in Inr (if lt_float hdg2_xw (fst st1) then (Fin hdg2_xw, Some (rwy2 r)) else st1))))"

definition falsy :: "string option \<Rightarrow> bool" where
  \<comment> \<open>\<^verbatim>\<open>not best_runway\<close>: \<^verbatim>\<open>None\<close> or the empty string\<close>
  "falsy b = (b = None \<or> b = Some [])"

definition to_selected :: "string option \<Rightarrow> selected" where
  "to_selected b = (case b of None \<Rightarrow> NoRwy | Some r \<Rightarrow> Rwy r)"

definition select_directional ::
  "float_unit \<Rightarrow> runway list \<Rightarrow> int \<Rightarrow> int \<Rightarrow> error + (selected \<times> string \<times> bool)" where
  \<comment> \<open>the last part of \<^verbatim>\<open>select_runway\<close>, from \<^verbatim>\<open>best_runway = None\<close> on\<close>
  "select_directional fl runway_data wind_dir wind_speed =
     (case for_each (consider_runway fl wind_dir wind_speed) runway_data (None, NegInf) of
        Inl e \<Rightarrow> Inl e
      | Inr (best_runway, best_headwind) \<Rightarrow>
          (case (if falsy best_runway
                 then (case for_each (least_crosswind fl wind_dir wind_speed) runway_data
                              (PosInf, best_runway) of
                         Inl e \<Rightarrow> Inl e
                       | Inr (min_crosswind, best) \<Rightarrow> Inr (best, True))
                 else Inr (best_runway, False)) of
             Inl e \<Rightarrow> Inl e
           | Inr (best, should_print) \<Rightarrow>
               Inr (to_selected best,
                    ''Selected runway '' @ py_str (to_selected best) @ '' based on wind ''
                      @ py_str_int wind_dir @ ''@'' @ py_str_int wind_speed @ ''KT'',
                    should_print)))"

definition select_variable ::
  "string \<Rightarrow> runway list \<Rightarrow> wind_data \<Rightarrow> error + (selected \<times> string \<times> bool)" where
  \<comment> \<open>the branch \<^verbatim>\<open>if wind_data.get('direction') == 'VRB'\<close>\<close>
  "select_variable airport runway_data w =
     (case preferred airport of
        Some sel \<Rightarrow>
          Inr (Rwy sel,
               ''Wind is '' @ raw_metar w @ '', using preferred runway '' @ sel, True)
      | None \<Rightarrow>
          (case runway_minima runway_data of Inl e \<Rightarrow> Inl e | Inr ns \<Rightarrow>
          (case py_min ns of Inl e \<Rightarrow> Inl e | Inr lowest_rwy \<Rightarrow>
          (case for_each (pick_lowest lowest_rwy) runway_data None of Inl e \<Rightarrow> Inl e
           | Inr None \<Rightarrow> Inl UnboundLocalError
           | Inr (Some sel) \<Rightarrow>
               Inr (Rwy sel,
                    ''Wind is '' @ raw_metar w @ '', no preferred runway - using runway '' @ sel,
                    True)))))"

definition select_runway ::
  "float_unit \<Rightarrow> string \<Rightarrow> runway list \<Rightarrow> wind_data option \<Rightarrow> string list
     \<Rightarrow> (error + (selected \<times> string \<times> bool)) \<times> string list" where
  \<comment> \<open>the last argument and the last component of the result are the console lines
      before and after\<close>
  "select_runway fl airport runway_data wind_data console =
     (case wind_data of
        None \<Rightarrow>
          (case preferred airport of
             Some sel \<Rightarrow>
               (Inr (Rwy sel, ''No wind data available - using preferred runway '' @ sel, True),
                console)
           | None \<Rightarrow>
               (case runway_data of
                  [] \<Rightarrow> (Inl IndexError, console)
                | r # rs \<Rightarrow>
                    (Inr (Rwy (rwy1 r),
                          ''No wind data available - defaulting to runway '' @ rwy1 r, True),
                     console)))
      | Some w \<Rightarrow>
          if airport = ''ENGM'' \<and> (direction w = VRB \<or> contains (raw_metar w) ''FZFG'') then
            (case get_engm_config console of
               (Inl e, rest) \<Rightarrow> (Inl e, rest)
             | (Inr (runways, mode), rest) \<Rightarrow>
                 (Inr (Rwys runways,
                       ''Using '' @ mode @ '' mode with runways '' @ join '', '' runways, True),
                  rest))
          else
            (case direction w of
               VRB \<Rightarrow> (select_variable airport runway_data w, console)
             | Deg d \<Rightarrow> (select_directional fl runway_data d (speed w), console)))"

subsection \<open>The store files\<close>

text \<open>
  A file is the string of its characters, line ends already translated to \<open>NL\<close>.
  \<^verbatim>\<open>readlines\<close> cuts it after every \<open>NL\<close> and keeps the \<open>NL\<close> on each line; a last line
  without one is kept as it is. \<^verbatim>\<open>writelines\<close> writes the lines one after the other and
  adds nothing between them.
\<close>

fun readlines :: "string \<Rightarrow> string list" where
  "readlines [] = []"
| "readlines (c # cs) =
     (if c = NL then [c] # readlines cs
      else (case readlines cs of [] \<Rightarrow> [[c]] | l # ls \<Rightarrow> (c # l) # ls))"

definition writelines :: "string list \<Rightarrow> string" where
  "writelines lines = concat lines"

definition update_rwy_file :: "string \<Rightarrow> string \<Rightarrow> string \<Rightarrow> string" where
  \<comment> \<open>from the content of the file to its content after the call;
      \<open>runway\<close> is the selection as the f-string formats it\<close>
  "update_rwy_file content airport runway =
     (let lines = readlines content;
          new_lines = filter (\<lambda>line. \<not> startswith line (''ACTIVE_RUNWAY:'' @ airport @ '':'')) lines
      in writelines (new_lines
           @ [''ACTIVE_RUNWAY:'' @ airport @ '':'' @ runway @ '':1'' @ [NL],
              ''ACTIVE_RUNWAY:'' @ airport @ '':'' @ runway @ '':0'' @ [NL]]))"

fun find_engm_lines ::
  "string list \<Rightarrow> nat \<Rightarrow> nat option \<times> nat option \<Rightarrow> nat option \<times> nat option" where
  \<comment> \<open>the loop over \<^verbatim>\<open>enumerate(lines)\<close>; the state is \<^verbatim>\<open>(arr_line_idx, dep_line_idx)\<close>\<close>
  "find_engm_lines [] i st = st"
| "find_engm_lines (line # rest) i (arr_line_idx, dep_line_idx) =
     find_engm_lines rest (Suc i)
       (if startswith line ''ENGM_ARR'' then (Some i, dep_line_idx)
        else if startswith line ''ENGM_DEP'' then (arr_line_idx, Some i)
        else (arr_line_idx, dep_line_idx))"

definition item :: "'a list \<Rightarrow> nat \<Rightarrow> error + 'a" where
  \<comment> \<open>\<^verbatim>\<open>xs[i]\<close> for a literal index \<open>i \<ge> 0\<close>\<close>
  "item xs i = (if i < length xs then Inr (xs ! i) else Inl IndexError)"

definition update_engm_runways :: "string \<Rightarrow> string list \<Rightarrow> string \<Rightarrow> error + string" where
  \<comment> \<open>from the content of the file to its content after the call; the file is written
      only when both lines were found and no index was out of range\<close>
  "update_engm_runways content runways mode =
     (let lines = readlines content in
     (case find_engm_lines lines 0 (None, None) of
        (Some arr_line_idx, Some dep_line_idx) \<Rightarrow>
          (if mode = ''SPO'' then
             (case item runways 0 of Inl e \<Rightarrow> Inl e | Inr r0 \<Rightarrow>
                if contains r0 ''19''
                then Inr (writelines (lines[arr_line_idx := ''ENGM_ARR:19R'' @ [NL],
                                            dep_line_idx := ''ENGM_DEP:19L'' @ [NL]]))
                else Inr (writelines (lines[arr_line_idx := ''ENGM_ARR:01R'' @ [NL],
                                            dep_line_idx := ''ENGM_DEP:01L'' @ [NL]])))
           else if mode = ''MPO'' then
             (case item runways 0 of Inl e \<Rightarrow> Inl e | Inr r0 \<Rightarrow>
             (case item runways 1 of Inl e \<Rightarrow> Inl e | Inr r1 \<Rightarrow>
                Inr (writelines (lines[arr_line_idx := ''ENGM_ARR:'' @ r0 @ '','' @ r1 @ [NL],
                                       dep_line_idx := ''ENGM_DEP:'' @ r0 @ '','' @ r1 @ [NL]]))))
           else
             (case item runways 0 of Inl e \<Rightarrow> Inl e | Inr r0 \<Rightarrow>
                Inr (writelines (lines[arr_line_idx := ''ENGM_ARR:'' @ r0 @ [NL],
                                       dep_line_idx := ''ENGM_DEP:'' @ r0 @ [NL]]))))
      | other \<Rightarrow> Inr content))"

subsection \<open>\<^verbatim>\<open>main\<close>\<close>

text \<open>
  The arguments of \<open>main\<close> are the float unit and what \<^verbatim>\<open>parse_runways\<close> and
  \<^verbatim>\<open>get_all_metars\<close> returned:
  the catalog as the dictionary's items in insertion order, and the observations as a
  map. The world is the contents of the \<^verbatim>\<open>.rwy\<close> files of the directory, in listing
  order, and the console lines still to be read. An exception leaves the world as it was
  when it was raised.
\<close>

record world =
  files :: "string list"
  stdin :: "string list"

definition update_store :: "string \<Rightarrow> selected \<Rightarrow> string \<Rightarrow> string \<Rightarrow> error + string" where
  \<comment> \<open>the body of \<^verbatim>\<open>for rwy_file in rwy_files\<close>, on the content of one file\<close>
  "update_store airport selected_runway message content =
     (if airport = ''ENGM'' \<and> (case selected_runway of Rwys rs \<Rightarrow> True | other \<Rightarrow> False) then
        (let mode = (if contains message ''Segregated'' then ''SPO''
                     else if contains message ''MPO'' then ''MPO'' else ''SRO'')
         in update_engm_runways content (case selected_runway of Rwys rs \<Rightarrow> rs | other \<Rightarrow> []) mode)
      else Inr (update_rwy_file content airport (py_str selected_runway)))"

fun update_all :: "(string \<Rightarrow> error + string) \<Rightarrow> string list \<Rightarrow> string list \<times> error option" where
  \<comment> \<open>one file after the other; a file already written stays written\<close>
  "update_all f [] = ([], None)"
| "update_all f (c # cs) =
     (case f c of
        Inl e \<Rightarrow> (c # cs, Some e)
      | Inr c' \<Rightarrow> (case update_all f cs of (cs', err) \<Rightarrow> (c' # cs', err)))"

fun process_airports ::
  "float_unit \<Rightarrow> (string \<times> runway list) list \<Rightarrow> (string \<Rightarrow> wind_data option) \<Rightarrow> world
     \<Rightarrow> world \<times> error option" where
  \<comment> \<open>\<^verbatim>\<open>for airport, runway_data in runways.items()\<close>\<close>
  "process_airports fl [] all_metars w = (w, None)"
| "process_airports fl ((airport, runway_data) # rest) all_metars w =
     (if airport \<in> set IGNORED_AIRPORTS then process_airports fl rest all_metars w
      else
        (case all_metars airport of
           None \<Rightarrow> process_airports fl rest all_metars w
         | Some wind_data \<Rightarrow>
             (case select_runway fl airport runway_data (Some wind_data) (stdin w) of
                (Inl e, console) \<Rightarrow> (w\<lparr>stdin := console\<rparr>, Some e)
              | (Inr (selected_runway, message, should_print), console) \<Rightarrow>
                  (case update_all (update_store airport selected_runway message) (files w) of
                     (fs, Some e) \<Rightarrow> (\<lparr>files = fs, stdin = console\<rparr>, Some e)
                   | (fs, None) \<Rightarrow>
                       process_airports fl rest all_metars \<lparr>files = fs, stdin = console\<rparr>))))"

definition main ::
  "float_unit \<Rightarrow> (string \<times> runway list) list \<Rightarrow> (string \<Rightarrow> wind_data option) \<Rightarrow> world
     \<Rightarrow> world \<times> error option" where
  "main fl runways all_metars w =
     (if files w = [] then (w, None)
      else
        (case process_airports fl runways all_metars w of
           (w', Some e) \<Rightarrow> (w', Some e)
         | (w', None) \<Rightarrow> (w'\<lparr>stdin := drop 1 (stdin w')\<rparr>, None)))"

section \<open>Notions used to state the properties\<close>

subsection \<open>Wind components as numbers\<close>

definition headwind :: "float_unit \<Rightarrow> int \<Rightarrow> int \<Rightarrow> int \<Rightarrow> real" where
  \<comment> \<open>the float \<^verbatim>\<open>calculate_wind_components\<close> returns first, for heading \<open>h\<close>\<close>
  "headwind fl h d s =
     fmul fl (float_of fl s)
       (fcos fl (fsub fl (radians fl (float_of fl d)) (radians fl (float_of fl h))))"

definition crosswind :: "float_unit \<Rightarrow> int \<Rightarrow> int \<Rightarrow> int \<Rightarrow> real" where
  \<comment> \<open>the float it returns second\<close>
  "crosswind fl h d s =
     \<bar>fmul fl (float_of fl s)
        (fsin fl (fsub fl (radians fl (float_of fl d)) (radians fl (float_of fl h))))\<bar>"

definition true_headwind :: "int \<Rightarrow> int \<Rightarrow> int \<Rightarrow> real" where
  \<comment> \<open>the headwind of the specification, in real numbers: the speed times the cosine
      of the angle between wind and heading, degrees turned into radians\<close>
  "true_headwind h d s = real_of_int s * cos (real_of_int (d - h) * pi / 180)"

definition true_crosswind :: "int \<Rightarrow> int \<Rightarrow> int \<Rightarrow> real" where
  "true_crosswind h d s = \<bar>real_of_int s * sin (real_of_int (d - h) * pi / 180)\<bar>"

definition small :: "int \<Rightarrow> bool" where
  \<comment> \<open>an int that converts to a float without rounding\<close>
  "small i = (\<bar>i\<bar> \<le> 2 ^ 53)"

definition accurate :: "float_unit \<Rightarrow> real \<Rightarrow> bool" where
  \<comment> \<open>every rounding operation of the unit is within \<open>eps\<close> of the exact one, relative to
      the size of the result (absolute for cosine and sine)\<close>
  "accurate fl eps =
     ((\<forall>x. \<bar>fu_cos fl x - cos x\<bar> \<le> eps)
      \<and> (\<forall>x. \<bar>fu_sin fl x - sin x\<bar> \<le> eps)
      \<and> (\<forall>x. \<bar>fu_radians fl x - x * pi / 180\<bar> \<le> eps * (1 + \<bar>x\<bar>))
      \<and> (\<forall>a b. \<bar>fu_sub fl a b - (a - b)\<bar> \<le> eps * (1 + \<bar>a - b\<bar>))
      \<and> (\<forall>a b. \<bar>fu_mul fl a b - a * b\<bar> \<le> eps * (1 + \<bar>a * b\<bar>)))"

definition error_bound :: "real \<Rightarrow> int \<Rightarrow> int \<Rightarrow> int \<Rightarrow> real" where
  \<comment> \<open>how far a component computed by a unit accurate to \<open>eps\<close> can be from the true one\<close>
  "error_bound eps h d s =
     eps * (1 + \<bar>real_of_int s\<bar> * (8 + 3 * \<bar>real_of_int d\<bar> + 3 * \<bar>real_of_int h\<bar>))"

definition exact_unit :: float_unit where
  \<comment> \<open>the float unit that does not round\<close>
  "exact_unit =
     \<lparr>fu_int = real_of_int, fu_radians = (\<lambda>x. x * pi / 180), fu_sub = (\<lambda>a b. a - b),
      fu_mul = (\<lambda>a b. a * b), fu_cos = cos, fu_sin = sin\<rparr>"

definition floats_ok :: "runway list \<Rightarrow> bool" where
  \<comment> \<open>every heading of the catalog converts to a float\<close>
  "floats_ok rs = list_all (\<lambda>r. float_ok (hdg1 r) \<and> float_ok (hdg2 r)) rs"

subsection \<open>Headings in encounter order\<close>

definition headings :: "runway list \<Rightarrow> (string \<times> int) list" where
  \<comment> \<open>designator and heading, the first heading of a runway before its second\<close>
  "headings rs = concat (map (\<lambda>r. [(rwy1 r, hdg1 r), (rwy2 r, hdg2 r)]) rs)"

definition candidate :: "float_unit \<Rightarrow> int \<Rightarrow> int \<Rightarrow> runway \<Rightarrow> string \<times> int" where
  \<comment> \<open>the one heading of a runway the first loop looks at: the first when its headwind
      is strictly greater, else the second\<close>
  "candidate fl d s r =
     (if headwind fl (hdg1 r) d s > headwind fl (hdg2 r) d s
      then (rwy1 r, hdg1 r) else (rwy2 r, hdg2 r))"

fun best_step ::
  "float_unit \<Rightarrow> int \<Rightarrow> int \<Rightarrow> string \<times> int \<Rightarrow> string option \<times> pyfloat
     \<Rightarrow> string option \<times> pyfloat" where
  \<comment> \<open>keep a heading when its crosswind is at most 25 and its headwind strictly greater
      than the best so far\<close>
  "best_step fl d s (n, h) (b, bh) =
     (if crosswind fl h d s \<le> 25 \<and> gt_float (headwind fl h d s) bh
      then (Some n, Fin (headwind fl h d s)) else (b, bh))"

fun min_step ::
  "float_unit \<Rightarrow> int \<Rightarrow> int \<Rightarrow> string \<times> int \<Rightarrow> pyfloat \<times> string option
     \<Rightarrow> pyfloat \<times> string option" where
  \<comment> \<open>keep a heading when its crosswind is strictly less than the least so far\<close>
  "min_step fl d s (n, h) (m, b) =
     (if lt_float (crosswind fl h d s) m then (Fin (crosswind fl h d s), Some n) else (m, b))"

definition spec_greatest_headwind :: "float_unit \<Rightarrow> runway list \<Rightarrow> int \<Rightarrow> int \<Rightarrow> string option" where
  \<comment> \<open>the specification's rule for a directional wind: among all headings with a
      crosswind of at most 25, in encounter order, the first of greatest headwind\<close>
  "spec_greatest_headwind fl rs d s =
     fst (fold (best_step fl d s) (headings rs) (None, NegInf))"

definition hub_override :: "string \<Rightarrow> string \<Rightarrow> bool" where
  \<comment> \<open>the ENGM branch is taken for a directional wind: the report has the freezing-fog code\<close>
  "hub_override airport raw = (airport = ''ENGM'' \<and> contains raw ''FZFG'')"

definition valid_choice :: "string \<Rightarrow> bool" where
  \<comment> \<open>a console line \<^verbatim>\<open>get_engm_config\<close> accepts\<close>
  "valid_choice c = (c \<in> set [''1'', ''2'', ''3'', ''4'', ''5'', ''6''])"

subsection \<open>Designator numbers\<close>

definition number_of :: "string \<Rightarrow> int" where
  \<comment> \<open>the number of a designator, its letter suffix stripped\<close>
  "number_of rwy = (case stripped_number rwy of Inr n \<Rightarrow> n | Inl e \<Rightarrow> 0)"

definition numbered :: "runway \<Rightarrow> bool" where
  \<comment> \<open>both designators of the runway have a number: \<^verbatim>\<open>int\<close> does not raise on them\<close>
  "numbered r = (stripped_number (rwy1 r) = Inr (number_of (rwy1 r))
                 \<and> stripped_number (rwy2 r) = Inr (number_of (rwy2 r)))"

definition pick :: "int \<Rightarrow> runway \<Rightarrow> string option \<Rightarrow> string option" where
  \<comment> \<open>\<open>pick_lowest\<close> on a numbered runway\<close>
  "pick lowest r sel =
     (if number_of (rwy1 r) = lowest then Some (rwy1 r)
      else if number_of (rwy2 r) = lowest then Some (rwy2 r) else sel)"

definition designators :: "runway list \<Rightarrow> string list" where
  "designators rs = concat (map (\<lambda>r. [rwy1 r, rwy2 r]) rs)"

definition spec_lowest_designator :: "runway list \<Rightarrow> string option" where
  \<comment> \<open>the specification's rule for a variable wind: the designator of lowest number,
      the first in catalog order among equals\<close>
  "spec_lowest_designator rs =
     fold (\<lambda>dsg best. case best of
                         None \<Rightarrow> Some dsg
                       | Some b \<Rightarrow> if number_of dsg < number_of b then Some dsg else Some b)
          (designators rs) None"

subsection \<open>Wind groups of a report\<close>

definition wind_group :: "string \<Rightarrow> string \<Rightarrow> bool" where
  \<comment> \<open>the specification's pattern: the variable marker or three digits, then two or
      three digits; the group is \<open>dir @ sp @ ''KT''\<close>\<close>
  "wind_group dir sp =
     ((dir = ''VRB'' \<or> (length dir = 3 \<and> list_all is_digit dir))
      \<and> (length sp = 2 \<or> length sp = 3) \<and> list_all is_digit sp)"

definition has_wind_group :: "string \<Rightarrow> bool" where
  \<comment> \<open>the report has a wind group somewhere\<close>
  "has_wind_group metar =
     (\<exists>pre dir sp post. metar = pre @ dir @ sp @ ''KT'' @ post \<and> wind_group dir sp)"

definition digits_value :: "string \<Rightarrow> nat" where
  \<comment> \<open>the number a string of digits writes\<close>
  "digits_value s = fold (\<lambda>c acc. 10 * acc + digit_val c) s 0"

subsection \<open>Lines of a store file\<close>

definition complete_line :: "string \<Rightarrow> bool" where
  \<comment> \<open>a line that ends with its only \<open>NL\<close>\<close>
  "complete_line l = (l \<noteq> [] \<and> last l = NL \<and> NL \<notin> set (butlast l))"

definition keyed :: "string \<Rightarrow> string \<Rightarrow> bool" where
  \<comment> \<open>the line is an active-runway record of the airport\<close>
  "keyed airport line = startswith line (''ACTIVE_RUNWAY:'' @ airport @ '':'')"

section \<open>Wind components\<close>

lemma to_float_ok: "float_ok i \<Longrightarrow> to_float fl i = Inr (float_of fl i)"
  by (simp add: to_float_def)

lemma small_float_ok: "small i \<Longrightarrow> float_ok i"
  by (simp add: small_def float_ok_def)

lemma float_of_small: "small i \<Longrightarrow> float_of fl i = real_of_int i"
  by (simp add: small_def float_of_def)

lemma cwc_ok:
  "float_ok h \<Longrightarrow> float_ok d \<Longrightarrow> float_ok s \<Longrightarrow>
   calculate_wind_components fl h d s = Inr (headwind fl h d s, crosswind fl h d s)"
  by (simp add: calculate_wind_components_def to_float_ok Let_def headwind_def crosswind_def)

lemma cwc_Inr_iff:
  "(\<exists>p. calculate_wind_components fl h d s = Inr p) \<longleftrightarrow> float_ok h \<and> float_ok d \<and> float_ok s"
  by (auto simp: calculate_wind_components_def to_float_def Let_def)

lemma cwc_Inl:
  "calculate_wind_components fl h d s = Inl e \<Longrightarrow>
   e = OverflowError \<and> \<not> (float_ok h \<and> float_ok d \<and> float_ok s)"
  by (auto simp: calculate_wind_components_def to_float_def Let_def split: if_splits)

lemma crosswind_nonneg: "0 \<le> crosswind fl h d s"
  by (simp add: crosswind_def)

lemma aligned_components:
  "headwind fl h h s = float_of fl s" "crosswind fl h h s = 0"
  by (simp_all add: headwind_def crosswind_def fsub_def fcos_def fsin_def fmul_def)

lemma calm_components:
  "headwind fl h d 0 = 0" "crosswind fl h d 0 = 0"
  by (simp_all add: headwind_def crosswind_def fmul_def float_of_def)

subsection \<open>Rounding errors\<close>

lemma accurate_nonneg: "accurate fl eps \<Longrightarrow> 0 \<le> eps"
proof -
  assume "accurate fl eps"
  then have "\<bar>fu_cos fl 0 - cos 0\<bar> \<le> eps" unfolding accurate_def by blast
  then show ?thesis by linarith
qed

lemma fcos_error: "accurate fl eps \<Longrightarrow> \<bar>fcos fl x - cos x\<bar> \<le> eps"
  using accurate_nonneg [of fl eps] by (auto simp: fcos_def accurate_def)

lemma fsin_error: "accurate fl eps \<Longrightarrow> \<bar>fsin fl x - sin x\<bar> \<le> eps"
  using accurate_nonneg [of fl eps] by (auto simp: fsin_def accurate_def)

lemma radians_error: "accurate fl eps \<Longrightarrow> \<bar>radians fl x - x * pi / 180\<bar> \<le> eps * (1 + \<bar>x\<bar>)"
  by (simp add: radians_def accurate_def)

lemma fsub_error: "accurate fl eps \<Longrightarrow> \<bar>fsub fl a b - (a - b)\<bar> \<le> eps * (1 + \<bar>a - b\<bar>)"
  using accurate_nonneg [of fl eps] by (auto simp: fsub_def accurate_def)

lemma fmul_error:
  assumes "accurate fl eps"
  shows "\<bar>fmul fl a b - a * b\<bar> \<le> eps * (1 + \<bar>a * b\<bar>)"
proof -
  have e: "0 \<le> eps" using assms by (rule accurate_nonneg)
  then have z: "0 \<le> eps * (1 + \<bar>a * b\<bar>)" by simp
  have "\<bar>fu_mul fl a b - a * b\<bar> \<le> eps * (1 + \<bar>a * b\<bar>)"
    using assms unfolding accurate_def by blast
  with z show ?thesis by (auto simp: fmul_def)
qed

lemma cos_lipschitz: "\<bar>cos x - cos y\<bar> \<le> \<bar>x - y\<bar>" for x y :: real
proof -
  have a: "\<bar>sin ((x + y) / 2)\<bar> \<le> 1" by simp
  have b: "\<bar>sin ((y - x) / 2)\<bar> \<le> \<bar>y - x\<bar> / 2"
    using abs_sin_x_le_abs_x [of "(y - x) / 2"] by simp
  have "\<bar>sin ((x + y) / 2)\<bar> * \<bar>sin ((y - x) / 2)\<bar> \<le> 1 * (\<bar>y - x\<bar> / 2)"
    using a b by (intro mult_mono) auto
  then have "2 * (\<bar>sin ((x + y) / 2)\<bar> * \<bar>sin ((y - x) / 2)\<bar>) \<le> \<bar>x - y\<bar>"
    by (simp add: abs_minus_commute)
  moreover have "\<bar>cos x - cos y\<bar> = 2 * (\<bar>sin ((x + y) / 2)\<bar> * \<bar>sin ((y - x) / 2)\<bar>)"
    by (simp add: cos_diff_cos abs_mult)
  ultimately show ?thesis by (simp only:)
qed

lemma sin_lipschitz: "\<bar>sin x - sin y\<bar> \<le> \<bar>x - y\<bar>" for x y :: real
proof -
  have a: "\<bar>cos ((x + y) / 2)\<bar> \<le> 1" by simp
  have b: "\<bar>sin ((x - y) / 2)\<bar> \<le> \<bar>x - y\<bar> / 2"
    using abs_sin_x_le_abs_x [of "(x - y) / 2"] by simp
  have "\<bar>sin ((x - y) / 2)\<bar> * \<bar>cos ((x + y) / 2)\<bar> \<le> (\<bar>x - y\<bar> / 2) * 1"
    using a b by (intro mult_mono) auto
  then have "2 * (\<bar>sin ((x - y) / 2)\<bar> * \<bar>cos ((x + y) / 2)\<bar>) \<le> \<bar>x - y\<bar>"
    by simp
  moreover have "\<bar>sin x - sin y\<bar> = 2 * (\<bar>sin ((x - y) / 2)\<bar> * \<bar>cos ((x + y) / 2)\<bar>)"
    by (simp add: sin_diff_sin abs_mult)
  ultimately show ?thesis by (simp only:)
qed

lemma angle_error:
  assumes acc: "accurate fl eps" and le: "eps \<le> 1"
  shows "\<bar>fsub fl (radians fl d) (radians fl h) - (d - h) * pi / 180\<bar>
           \<le> eps * (5 + 3 * \<bar>d\<bar> + 3 * \<bar>h\<bar>)"
proof -
  define A where "A = radians fl d"
  define B where "B = radians fl h"
  define T where "T = fsub fl A B"
  have e: "0 \<le> eps" using acc by (rule accurate_nonneg)
  have h1: "\<bar>A - d * pi / 180\<bar> \<le> eps * (1 + \<bar>d\<bar>)"
    unfolding A_def using acc by (rule radians_error)
  have h2: "\<bar>B - h * pi / 180\<bar> \<le> eps * (1 + \<bar>h\<bar>)"
    unfolding B_def using acc by (rule radians_error)
  have h3: "\<bar>T - (A - B)\<bar> \<le> eps * (1 + \<bar>A - B\<bar>)"
    unfolding T_def using acc by (rule fsub_error)
  have k1: "eps * (1 + \<bar>d\<bar>) \<le> 1 + \<bar>d\<bar>" using le e by (intro mult_left_le_one_le) auto
  have k2: "eps * (1 + \<bar>h\<bar>) \<le> 1 + \<bar>h\<bar>" using le e by (intro mult_left_le_one_le) auto
  have pd: "\<bar>d * pi / 180\<bar> \<le> \<bar>d\<bar>"
  proof -
    have "\<bar>d * pi / 180\<bar> = \<bar>d\<bar> * (pi / 180)" by (simp add: abs_mult)
    also have "\<dots> \<le> \<bar>d\<bar> * 1" using pi_less_4 by (intro mult_left_mono) auto
    finally show ?thesis by simp
  qed
  have ph: "\<bar>h * pi / 180\<bar> \<le> \<bar>h\<bar>"
  proof -
    have "\<bar>h * pi / 180\<bar> = \<bar>h\<bar> * (pi / 180)" by (simp add: abs_mult)
    also have "\<dots> \<le> \<bar>h\<bar> * 1" using pi_less_4 by (intro mult_left_mono) auto
    finally show ?thesis by simp
  qed
  have ab: "\<bar>A - B\<bar> \<le> 2 + 2 * \<bar>d\<bar> + 2 * \<bar>h\<bar>"
    using h1 h2 k1 k2 pd ph by linarith
  have h3': "eps * (1 + \<bar>A - B\<bar>) \<le> eps * (3 + 2 * \<bar>d\<bar> + 2 * \<bar>h\<bar>)"
    using ab e by (intro mult_left_mono) auto
  have "(d - h) * pi / 180 = d * pi / 180 - h * pi / 180" by (simp add: field_simps)
  then have "\<bar>T - (d - h) * pi / 180\<bar>
      \<le> eps * (3 + 2 * \<bar>d\<bar> + 2 * \<bar>h\<bar>) + eps * (1 + \<bar>d\<bar>) + eps * (1 + \<bar>h\<bar>)"
    using h1 h2 h3 h3' by linarith
  also have "\<dots> = eps * (5 + 3 * \<bar>d\<bar> + 3 * \<bar>h\<bar>)" by (simp add: algebra_simps)
  finally show ?thesis by (simp add: T_def A_def B_def)
qed

lemma component_error:
  fixes s d h :: real
  assumes acc: "accurate fl eps" and le: "eps \<le> 1"
    and g: "\<bar>G - g\<bar> \<le> eps" "\<bar>g - t\<bar> \<le> eps * (5 + 3 * \<bar>d\<bar> + 3 * \<bar>h\<bar>)" "\<bar>g\<bar> \<le> 1"
  shows "\<bar>fmul fl s G - s * t\<bar> \<le> eps * (1 + \<bar>s\<bar> * (8 + 3 * \<bar>d\<bar> + 3 * \<bar>h\<bar>))"
proof -
  have e: "0 \<le> eps" using acc by (rule accurate_nonneg)
  have G2: "\<bar>G\<bar> \<le> 2" using g(1,3) le by linarith
  have m: "\<bar>fmul fl s G - s * G\<bar> \<le> eps * (1 + \<bar>s * G\<bar>)" using acc by (rule fmul_error)
  have "\<bar>s * G\<bar> = \<bar>s\<bar> * \<bar>G\<bar>" by (simp add: abs_mult)
  also have "\<dots> \<le> \<bar>s\<bar> * 2" using G2 by (intro mult_left_mono) auto
  finally have "eps * (1 + \<bar>s * G\<bar>) \<le> eps * (1 + \<bar>s\<bar> * 2)"
    using e by (intro mult_left_mono) auto
  with m have m': "\<bar>fmul fl s G - s * G\<bar> \<le> eps * (1 + \<bar>s\<bar> * 2)" by linarith
  have "\<bar>G - t\<bar> \<le> eps + eps * (5 + 3 * \<bar>d\<bar> + 3 * \<bar>h\<bar>)" using g(1,2) by linarith
  then have "\<bar>s\<bar> * \<bar>G - t\<bar> \<le> \<bar>s\<bar> * (eps + eps * (5 + 3 * \<bar>d\<bar> + 3 * \<bar>h\<bar>))"
    by (intro mult_left_mono) auto
  moreover have "\<bar>s * G - s * t\<bar> = \<bar>s\<bar> * \<bar>G - t\<bar>"
    by (simp add: abs_mult flip: right_diff_distrib)
  ultimately have d2: "\<bar>s * G - s * t\<bar> \<le> \<bar>s\<bar> * (eps + eps * (5 + 3 * \<bar>d\<bar> + 3 * \<bar>h\<bar>))"
    by simp
  have "\<bar>fmul fl s G - s * t\<bar>
      \<le> eps * (1 + \<bar>s\<bar> * 2) + \<bar>s\<bar> * (eps + eps * (5 + 3 * \<bar>d\<bar> + 3 * \<bar>h\<bar>))"
    using m' d2 by linarith
  also have "\<dots> = eps * (1 + \<bar>s\<bar> * (8 + 3 * \<bar>d\<bar> + 3 * \<bar>h\<bar>))" by (simp add: algebra_simps)
  finally show ?thesis .
qed

lemma headwind_error:
  assumes acc: "accurate fl eps" and le: "eps \<le> 1"
    and sm: "small h" "small d" "small s"
  shows "\<bar>headwind fl h d s - true_headwind h d s\<bar> \<le> error_bound eps h d s"
proof -
  define T where "T = fsub fl (radians fl (real_of_int d)) (radians fl (real_of_int h))"
  have a: "\<bar>T - (real_of_int d - real_of_int h) * pi / 180\<bar>
      \<le> eps * (5 + 3 * \<bar>real_of_int d\<bar> + 3 * \<bar>real_of_int h\<bar>)"
    unfolding T_def using acc le by (rule angle_error)
  have g1: "\<bar>fcos fl T - cos T\<bar> \<le> eps" using acc by (rule fcos_error)
  have g2: "\<bar>cos T - cos (real_of_int (d - h) * pi / 180)\<bar>
      \<le> eps * (5 + 3 * \<bar>real_of_int d\<bar> + 3 * \<bar>real_of_int h\<bar>)"
    using cos_lipschitz [of T "real_of_int (d - h) * pi / 180"] a by simp
  have g3: "\<bar>cos T\<bar> \<le> 1" by simp
  from component_error [OF acc le g1 g2 g3, of "real_of_int s"] show ?thesis
    using sm by (simp add: headwind_def true_headwind_def error_bound_def float_of_small T_def)
qed

lemma crosswind_error:
  assumes acc: "accurate fl eps" and le: "eps \<le> 1"
    and sm: "small h" "small d" "small s"
  shows "\<bar>crosswind fl h d s - true_crosswind h d s\<bar> \<le> error_bound eps h d s"
proof -
  define T where "T = fsub fl (radians fl (real_of_int d)) (radians fl (real_of_int h))"
  have a: "\<bar>T - (real_of_int d - real_of_int h) * pi / 180\<bar>
      \<le> eps * (5 + 3 * \<bar>real_of_int d\<bar> + 3 * \<bar>real_of_int h\<bar>)"
    unfolding T_def using acc le by (rule angle_error)
  have g1: "\<bar>fsin fl T - sin T\<bar> \<le> eps" using acc by (rule fsin_error)
  have g2: "\<bar>sin T - sin (real_of_int (d - h) * pi / 180)\<bar>
      \<le> eps * (5 + 3 * \<bar>real_of_int d\<bar> + 3 * \<bar>real_of_int h\<bar>)"
    using sin_lipschitz [of T "real_of_int (d - h) * pi / 180"] a by simp
  have g3: "\<bar>sin T\<bar> \<le> 1" by simp
  have "\<bar>\<bar>fmul fl (real_of_int s) (fsin fl T)\<bar> - \<bar>real_of_int s * sin (real_of_int (d - h) * pi / 180)\<bar>\<bar>
      \<le> \<bar>fmul fl (real_of_int s) (fsin fl T) - real_of_int s * sin (real_of_int (d - h) * pi / 180)\<bar>"
    by (rule abs_triangle_ineq3)
  with component_error [OF acc le g1 g2 g3, of "real_of_int s"] show ?thesis
    using sm by (simp add: crosswind_def true_crosswind_def error_bound_def float_of_small T_def)
qed

subsection \<open>The unit that does not round\<close>

lemma accurate_exact_unit: "0 \<le> eps \<Longrightarrow> accurate exact_unit eps"
  by (simp add: accurate_def exact_unit_def)

lemma exact_components:
  "headwind exact_unit h d s = true_headwind h d s"
  "crosswind exact_unit h d s = true_crosswind h d s"
  by (simp_all add: headwind_def crosswind_def true_headwind_def true_crosswind_def exact_unit_def
      float_of_def fsub_def fmul_def fcos_def fsin_def radians_def field_simps)

text \<open>
  Claim C8. For every runway heading \<open>h\<close> and every wind of direction \<open>d\<close> and speed
  \<open>s\<close> that convert to a float, \<^verbatim>\<open>calculate_wind_components\<close> returns the floats
  \<open>headwind\<close> and \<open>crosswind\<close>: the speed times the cosine, and the absolute value of the
  speed times the sine, of the difference of the two angles after \<^verbatim>\<open>math.radians\<close>. On a
  float unit accurate to \<open>eps\<close> they are the headwind \<open>s * cos ((d - h) * pi / 180)\<close> and the
  crosswind \<open>\<bar>s * sin ((d - h) * pi / 180)\<bar>\<close> of the specification up to the rounding
  error \<open>eps * (1 + \<bar>s\<bar> * (8 + 3 * \<bar>d\<bar> + 3 * \<bar>h\<bar>))\<close>. Whatever is returned, the
  crosswind is not negative; with \<open>d = h\<close> the result is exactly headwind \<open>s\<close> and
  crosswind \<open>0\<close>; and the headwind can be negative: a wind of 10 knots from 180 on
  heading 0 has one.
\<close>

theorem calculate_wind_components_formula:
  "(float_ok h \<and> float_ok d \<and> float_ok s \<longrightarrow>
      calculate_wind_components fl h d s = Inr (headwind fl h d s, crosswind fl h d s))
   \<and> (accurate fl eps \<and> eps \<le> 1 \<and> small h \<and> small d \<and> small s \<longrightarrow>
      \<bar>headwind fl h d s - real_of_int s * cos (real_of_int (d - h) * pi / 180)\<bar>
        \<le> eps * (1 + \<bar>real_of_int s\<bar> * (8 + 3 * \<bar>real_of_int d\<bar> + 3 * \<bar>real_of_int h\<bar>))
      \<and> \<bar>crosswind fl h d s - \<bar>real_of_int s * sin (real_of_int (d - h) * pi / 180)\<bar>\<bar>
        \<le> eps * (1 + \<bar>real_of_int s\<bar> * (8 + 3 * \<bar>real_of_int d\<bar> + 3 * \<bar>real_of_int h\<bar>)))
   \<and> (\<forall>hw xw. calculate_wind_components fl h d s = Inr (hw, xw) \<longrightarrow> 0 \<le> xw)
   \<and> (float_ok h \<and> small s \<longrightarrow>
      calculate_wind_components fl h h s = Inr (real_of_int s, 0))
   \<and> (accurate fl eps \<and> eps \<le> 1 / 10 ^ 6 \<longrightarrow>
      (\<exists>hw xw. calculate_wind_components fl 0 180 10 = Inr (hw, xw) \<and> hw < 0))"
proof (intro conjI impI allI)
  assume "float_ok h \<and> float_ok d \<and> float_ok s"
  then show "calculate_wind_components fl h d s = Inr (headwind fl h d s, crosswind fl h d s)"
    by (simp add: cwc_ok)
next
  assume a: "accurate fl eps \<and> eps \<le> 1 \<and> small h \<and> small d \<and> small s"
  then show "\<bar>headwind fl h d s - real_of_int s * cos (real_of_int (d - h) * pi / 180)\<bar>
        \<le> eps * (1 + \<bar>real_of_int s\<bar> * (8 + 3 * \<bar>real_of_int d\<bar> + 3 * \<bar>real_of_int h\<bar>))"
    using headwind_error [of fl eps h d s] by (simp add: true_headwind_def error_bound_def)
  from a show "\<bar>crosswind fl h d s - \<bar>real_of_int s * sin (real_of_int (d - h) * pi / 180)\<bar>\<bar>
        \<le> eps * (1 + \<bar>real_of_int s\<bar> * (8 + 3 * \<bar>real_of_int d\<bar> + 3 * \<bar>real_of_int h\<bar>))"
    using crosswind_error [of fl eps h d s] by (simp add: true_crosswind_def error_bound_def)
next
  fix hw xw
  assume "calculate_wind_components fl h d s = Inr (hw, xw)"
  then show "0 \<le> xw"
    by (auto simp: calculate_wind_components_def to_float_def Let_def split: if_splits)
next
  assume "float_ok h \<and> small s"
  then show "calculate_wind_components fl h h s = Inr (real_of_int s, 0)"
    by (simp add: cwc_ok small_float_ok aligned_components float_of_small)
next
  assume a: "accurate fl eps \<and> eps \<le> 1 / 10 ^ 6"
  then have e: "0 \<le> eps" "eps \<le> 1" using accurate_nonneg [of fl eps] by auto
  have sm: "small 0" "small 180" "small 10" by (simp_all add: small_def)
  have "\<bar>headwind fl 0 180 10 - true_headwind 0 180 10\<bar> \<le> error_bound eps 0 180 10"
    using a e sm by (intro headwind_error) auto
  moreover have "true_headwind 0 180 10 = - 10" by (simp add: true_headwind_def)
  moreover have "error_bound eps 0 180 10 \<le> 1" using a by (simp add: error_bound_def)
  ultimately have "headwind fl 0 180 10 < 0" by linarith
  moreover have "calculate_wind_components fl 0 180 10
      = Inr (headwind fl 0 180 10, crosswind fl 0 180 10)"
    using sm by (intro cwc_ok small_float_ok)
  ultimately show "\<exists>hw xw. calculate_wind_components fl 0 180 10 = Inr (hw, xw) \<and> hw < 0"
    by blast
qed

theorem calculate_wind_components_formula_witness:
  "accurate exact_unit 0 \<and> small 177 \<and> small 200 \<and> small 20
   \<and> calculate_wind_components exact_unit 177 200 20
       = Inr (20 * cos (23 * pi / 180), \<bar>20 * sin (23 * pi / 180)\<bar>)
   \<and> (\<forall>fl. calculate_wind_components fl 177 177 20 = Inr (20, 0))
   \<and> (\<exists>hw xw. calculate_wind_components exact_unit 0 180 10 = Inr (hw, xw) \<and> hw < 0)"
proof -
  have acc: "accurate exact_unit 0" by (simp add: accurate_exact_unit)
  have sm: "small 177" "small 200" "small 20" by (simp_all add: small_def)
  have ok: "float_ok 177" "float_ok 200" "float_ok 20" using sm by (simp_all add: small_float_ok)
  note t = calculate_wind_components_formula [of 177 200 20 exact_unit 0]
  from t ok have r: "calculate_wind_components exact_unit 177 200 20
      = Inr (headwind exact_unit 177 200 20, crosswind exact_unit 177 200 20)"
    by blast
  from t acc sm have "\<bar>headwind exact_unit 177 200 20
        - real_of_int 20 * cos (real_of_int (200 - 177) * pi / 180)\<bar> \<le> 0"
    and "\<bar>crosswind exact_unit 177 200 20
        - \<bar>real_of_int 20 * sin (real_of_int (200 - 177) * pi / 180)\<bar>\<bar> \<le> 0"
    by simp_all
  then have v: "headwind exact_unit 177 200 20 = 20 * cos (23 * pi / 180)"
    "crosswind exact_unit 177 200 20 = \<bar>20 * sin (23 * pi / 180)\<bar>"
    by simp_all
  have al: "calculate_wind_components fl 177 177 20 = Inr (20, 0)" for fl
    using calculate_wind_components_formula [of 177 200 20 fl 0] ok sm by simp
  have acc6: "accurate exact_unit (1 / 10 ^ 6)" by (simp add: accurate_exact_unit)
  from calculate_wind_components_formula [of 177 200 20 exact_unit "1 / 10 ^ 6"] acc6
  have neg: "\<exists>hw xw. calculate_wind_components exact_unit 0 180 10 = Inr (hw, xw) \<and> hw < 0"
    by simp
  from acc sm r v al neg show ?thesis by simp
qed


section \<open>The parser\<close>

subsection \<open>\<^verbatim>\<open>int\<close> on digits\<close>

lemma digit_not_space: "is_digit c \<Longrightarrow> \<not> is_space c"
  by (auto simp: is_digit_def is_space_def)

lemma digit_not_sign: "is_digit c \<Longrightarrow> c \<noteq> CHR ''-'' \<and> c \<noteq> CHR ''+''"
  by (auto simp: is_digit_def)

lemma lit_rest_digits:
  "list_all is_digit cs \<Longrightarrow> lit_rest acc cs = Some (fold (\<lambda>c acc. 10 * acc + digit_val c) cs acc)"
  by (induction cs arbitrary: acc) simp_all

lemma dropWhile_digits: "list_all is_digit s \<Longrightarrow> dropWhile is_space s = s"
  by (cases s) (simp_all add: digit_not_space)

lemma strip_digits:
  assumes "list_all is_digit s"
  shows "strip s = s"
proof -
  have "list_all is_digit (rev s)" using assms by (simp add: list_all_iff)
  then have "dropWhile is_space (rev s) = rev s" by (rule dropWhile_digits)
  then show ?thesis using dropWhile_digits [OF assms] by (simp add: strip_def)
qed

lemma py_int_digits:
  assumes "list_all is_digit s" "s \<noteq> []" "length s \<le> 4300"
  shows "py_int s = Inr (int (digits_value s))"
proof -
  obtain c cs where s: "s = c # cs" using assms(2) by (cases s) auto
  have c: "is_digit c" "list_all is_digit cs" using assms(1) s by simp_all
  have "length (filter is_digit s) \<le> length s" by (rule length_filter_le)
  then have cap: "\<not> 4300 < length (filter is_digit s)" using assms(3) by linarith
  have "lit_rest (digit_val c) cs = Some (digits_value s)"
    using c by (simp add: s lit_rest_digits digits_value_def)
  then have "int_literal s = Some (digits_value s)"
    using cap c(1) unfolding int_literal_def by (simp add: s)
  then show ?thesis
    using digit_not_sign [OF c(1)] strip_digits [OF assms(1)] by (simp add: py_int_def s)
qed

lemma digits_at_iff:
  "digits_at n s \<longleftrightarrow> (\<exists>ds rest. s = ds @ rest \<and> length ds = n \<and> list_all is_digit ds)"
proof
  assume "digits_at n s"
  then have "s = take n s @ drop n s \<and> length (take n s) = n \<and> list_all is_digit (take n s)"
    by (simp add: digits_at_def)
  then show "\<exists>ds rest. s = ds @ rest \<and> length ds = n \<and> list_all is_digit ds" by blast
next
  assume "\<exists>ds rest. s = ds @ rest \<and> length ds = n \<and> list_all is_digit ds"
  then show "digits_at n s" by (auto simp: digits_at_def)
qed

lemma K_not_digit: "\<not> is_digit (CHR ''K'')" "\<not> is_digit (CHR ''V'')"
  by (simp_all add: is_digit_def)

lemma match_speed_Some:
  "match_speed s = Some sp \<longleftrightarrow>
     (length sp = 2 \<or> length sp = 3) \<and> list_all is_digit sp \<and> prefix (sp @ ''KT'') s"
proof
  assume "match_speed s = Some sp"
  then consider "digits_at 3 s" "prefix ''KT'' (drop 3 s)" "sp = take 3 s"
    | "digits_at 2 s" "prefix ''KT'' (drop 2 s)" "sp = take 2 s"
    by (auto simp: match_speed_def split: if_splits)
  then show "(length sp = 2 \<or> length sp = 3) \<and> list_all is_digit sp \<and> prefix (sp @ ''KT'') s"
  proof cases
    case 1
    then obtain post where "drop 3 s = ''KT'' @ post" by (auto simp: prefix_def)
    then have "s = take 3 s @ ''KT'' @ post" by (metis append_take_drop_id)
    then have "prefix (take 3 s @ ''KT'') s" by (metis append.assoc prefixI)
    with 1 show ?thesis by (simp add: digits_at_def)
  next
    case 2
    then obtain post where "drop 2 s = ''KT'' @ post" by (auto simp: prefix_def)
    then have "s = take 2 s @ ''KT'' @ post" by (metis append_take_drop_id)
    then have "prefix (take 2 s @ ''KT'') s" by (metis append.assoc prefixI)
    with 2 show ?thesis by (simp add: digits_at_def)
  qed
next
  assume a: "(length sp = 2 \<or> length sp = 3) \<and> list_all is_digit sp \<and> prefix (sp @ ''KT'') s"
  then obtain post where s: "s = sp @ ''KT'' @ post" by (auto simp: prefix_def)
  from a consider "length sp = 3" | "length sp = 2" by blast
  then show "match_speed s = Some sp"
  proof cases
    case 1
    then show ?thesis using a by (simp add: match_speed_def digits_at_def s)
  next
    case 2
    then have "\<not> digits_at 3 s"
      by (simp add: digits_at_def s K_not_digit)
    then show ?thesis using a 2 by (simp add: match_speed_def digits_at_def s)
  qed
qed

lemma match_here_Some:
  "match_here s = Some (dir, sp) \<longleftrightarrow> wind_group dir sp \<and> prefix (dir @ sp @ ''KT'') s"
proof
  assume m: "match_here s = Some (dir, sp)"
  then consider "prefix ''VRB'' s" "match_speed (drop 3 s) = Some sp" "dir = ''VRB''"
    | "digits_at 3 s" "match_speed (drop 3 s) = Some sp" "dir = take 3 s"
    by (auto simp: match_here_def split: if_splits option.splits)
  then show "wind_group dir sp \<and> prefix (dir @ sp @ ''KT'') s"
  proof cases
    case 1
    then obtain rest where s: "s = ''VRB'' @ rest" by (auto simp: prefix_def)
    with 1 have "match_speed rest = Some sp" by simp
    then show ?thesis using 1(3) s by (auto simp: match_speed_Some wind_group_def)
  next
    case 2
    have s: "s = take 3 s @ drop 3 s" by simp
    from 2 have p: "prefix (sp @ ''KT'') (drop 3 s)" by (simp add: match_speed_Some)
    have "prefix (take 3 s @ sp @ ''KT'') (take 3 s @ drop 3 s)"
      using p by (simp only: same_prefix_prefix)
    then show ?thesis using 2 by (auto simp: match_speed_Some wind_group_def digits_at_def)
  qed
next
  assume a: "wind_group dir sp \<and> prefix (dir @ sp @ ''KT'') s"
  then obtain post where s: "s = dir @ sp @ ''KT'' @ post" by (auto simp: prefix_def)
  have sp: "match_speed (sp @ ''KT'' @ post) = Some sp"
    using a by (simp add: match_speed_Some wind_group_def)
  from a consider "dir = ''VRB''" | "length dir = 3" "list_all is_digit dir" "dir \<noteq> ''VRB''"
    by (auto simp: wind_group_def)
  then show "match_here s = Some (dir, sp)"
  proof cases
    case 1
    then show ?thesis using sp by (simp add: match_here_def s)
  next
    case 2
    then obtain a b c where d: "dir = [a, b, c]"
      by (cases dir; cases "tl dir"; cases "tl (tl dir)") auto
    with 2 have "is_digit a" by simp
    then have "\<not> prefix ''VRB'' s" using K_not_digit by (auto simp: s d)
    then show ?thesis using sp 2 by (simp add: match_here_def s digits_at_def)
  qed
qed

lemma re_search_Some:
  "re_search s = Some (dir, sp) \<Longrightarrow>
   \<exists>pre post. s = pre @ dir @ sp @ ''KT'' @ post \<and> wind_group dir sp
     \<and> (\<forall>pre' dir' sp' post'. s = pre' @ dir' @ sp' @ ''KT'' @ post' \<and> wind_group dir' sp'
           \<longrightarrow> length pre \<le> length pre')"
proof (induction s)
  case Nil
  then show ?case by (simp add: match_here_Some wind_group_def)
next
  case (Cons c cs)
  show ?case
  proof (cases "match_here (c # cs)")
    case (Some m)
    with Cons.prems have "match_here (c # cs) = Some (dir, sp)" by simp
    then obtain post where "c # cs = [] @ dir @ sp @ ''KT'' @ post" "wind_group dir sp"
      by (auto simp: match_here_Some prefix_def)
    then show ?thesis by (metis le0 list.size(3))
  next
    case None
    with Cons.prems have "re_search cs = Some (dir, sp)" by simp
    from Cons.IH [OF this] obtain pre post where
      p: "cs = pre @ dir @ sp @ ''KT'' @ post" "wind_group dir sp"
         "\<forall>pre' dir' sp' post'. cs = pre' @ dir' @ sp' @ ''KT'' @ post' \<and> wind_group dir' sp'
           \<longrightarrow> length pre \<le> length pre'"
      by blast
    have "length (c # pre) \<le> length pre'"
      if h: "c # cs = pre' @ dir' @ sp' @ ''KT'' @ post'" "wind_group dir' sp'" for pre' dir' sp' post'
    proof (cases pre')
      case Nil
      with h have "match_here (c # cs) = Some (dir', sp')"
        by (simp add: match_here_Some prefix_def)
      with None show ?thesis by simp
    next
      case (Cons x xs)
      with h have "cs = xs @ dir' @ sp' @ ''KT'' @ post'" by simp
      with p(3) h(2) have "length pre \<le> length xs" by blast
      then show ?thesis using Cons by simp
    qed
    then have "c # cs = (c # pre) @ dir @ sp @ ''KT'' @ post \<and> wind_group dir sp
       \<and> (\<forall>pre' dir' sp' post'. c # cs = pre' @ dir' @ sp' @ ''KT'' @ post' \<and> wind_group dir' sp'
           \<longrightarrow> length (c # pre) \<le> length pre')"
      using p by simp
    then show ?thesis by blast
  qed
qed

lemma re_search_None: "re_search s = None \<longleftrightarrow> \<not> has_wind_group s"
proof (induction s)
  case Nil
  have "match_here [] = None" by (simp add: match_here_def digits_at_def)
  then show ?case by (simp add: has_wind_group_def)
next
  case (Cons c cs)
  have "has_wind_group (c # cs) \<longleftrightarrow> (\<exists>m. match_here (c # cs) = Some m) \<or> has_wind_group cs"
  proof
    assume "has_wind_group (c # cs)"
    then obtain pre dir sp post where
      h: "c # cs = pre @ dir @ sp @ ''KT'' @ post" "wind_group dir sp"
      by (auto simp: has_wind_group_def)
    show "(\<exists>m. match_here (c # cs) = Some m) \<or> has_wind_group cs"
    proof (cases pre)
      case Nil
      with h have "match_here (c # cs) = Some (dir, sp)"
        by (simp add: match_here_Some prefix_def)
      then show ?thesis by blast
    next
      case (Cons x xs)
      with h have "cs = xs @ dir @ sp @ ''KT'' @ post" by simp
      with h(2) show ?thesis unfolding has_wind_group_def by blast
    qed
  next
    assume "(\<exists>m. match_here (c # cs) = Some m) \<or> has_wind_group cs"
    then show "has_wind_group (c # cs)"
    proof
      assume "\<exists>m. match_here (c # cs) = Some m"
      then obtain dir sp where "match_here (c # cs) = Some (dir, sp)" by auto
      then obtain post where "c # cs = [] @ dir @ sp @ ''KT'' @ post" "wind_group dir sp"
        by (auto simp: match_here_Some prefix_def)
      then show ?thesis unfolding has_wind_group_def by blast
    next
      assume "has_wind_group cs"
      then obtain pre dir sp post where "cs = pre @ dir @ sp @ ''KT'' @ post" "wind_group dir sp"
        by (auto simp: has_wind_group_def)
      then have "c # cs = (c # pre) @ dir @ sp @ ''KT'' @ post" by simp
      with \<open>wind_group dir sp\<close> show ?thesis unfolding has_wind_group_def by blast
    qed
  qed
  with Cons show ?case by (auto split: option.splits)
qed

lemma no_wind_group_Nil: "\<not> has_wind_group []"
  by (simp add: has_wind_group_def)

text \<open>
  Claim C7. \<^verbatim>\<open>parse_metar\<close> returns \<^verbatim>\<open>None\<close> exactly when the text has no wind group
  (the variable marker or three digits, then two or three digits, then \<^verbatim>\<open>KT\<close>, anywhere
  in the text). Otherwise the result keeps the text unchanged as \<^verbatim>\<open>raw_metar\<close>, and for
  the leftmost wind group of the text it holds the speed the digits write and, as
  direction, \<^verbatim>\<open>VRB\<close> when the group starts with the variable marker and else the
  number its three digits write. The function has no other result: the model returns an
  option, and the \<^verbatim>\<open>int\<close> calls inside the \<^verbatim>\<open>try\<close>, which would give \<^verbatim>\<open>None\<close> by
  raising, never raise on the digits matched.
\<close>

theorem parse_metar_wind_group:
  "(parse_metar metar = None \<longleftrightarrow> \<not> has_wind_group metar)
   \<and> (\<forall>w. parse_metar metar = Some w \<longrightarrow>
        raw_metar w = metar
        \<and> (\<exists>pre dir sp post. metar = pre @ dir @ sp @ ''KT'' @ post \<and> wind_group dir sp
             \<and> (\<forall>pre' dir' sp' post'.
                   metar = pre' @ dir' @ sp' @ ''KT'' @ post' \<and> wind_group dir' sp'
                   \<longrightarrow> length pre \<le> length pre')
             \<and> speed w = int (digits_value sp)
             \<and> direction w = (if dir = ''VRB'' then VRB else Deg (int (digits_value dir)))))"
proof (cases "re_search metar")
  case None
  then have "\<not> has_wind_group metar" by (simp add: re_search_None)
  moreover have "parse_metar metar = None" using None by (simp add: parse_metar_def)
  ultimately show ?thesis by simp
next
  case (Some m)
  obtain dir sp where m: "m = (dir, sp)" by (cases m)
  from Some have has: "has_wind_group metar" using re_search_None [of metar] by simp
  then have ne: "metar \<noteq> []" using no_wind_group_Nil by auto
  from re_search_Some [of metar dir sp] Some m obtain pre post where
    g: "metar = pre @ dir @ sp @ ''KT'' @ post" "wind_group dir sp"
       "\<forall>pre' dir' sp' post'. metar = pre' @ dir' @ sp' @ ''KT'' @ post' \<and> wind_group dir' sp'
           \<longrightarrow> length pre \<le> length pre'"
    by blast
  have sp_ok: "py_int sp = Inr (int (digits_value sp))"
    using g(2) by (intro py_int_digits) (auto simp: wind_group_def)
  have dir_ok: "py_int dir = Inr (int (digits_value dir))" if "dir \<noteq> ''VRB''"
    using g(2) that by (intro py_int_digits) (auto simp: wind_group_def)
  have p: "parse_metar metar =
      Some \<lparr>direction = (if dir = ''VRB'' then VRB else Deg (int (digits_value dir))),
            speed = int (digits_value sp), raw_metar = metar\<rparr>"
    using Some m ne sp_ok dir_ok by (simp add: parse_metar_def)
  have "raw_metar w = metar
        \<and> (\<exists>pre dir sp post. metar = pre @ dir @ sp @ ''KT'' @ post \<and> wind_group dir sp
             \<and> (\<forall>pre' dir' sp' post'.
                   metar = pre' @ dir' @ sp' @ ''KT'' @ post' \<and> wind_group dir' sp'
                   \<longrightarrow> length pre \<le> length pre')
             \<and> speed w = int (digits_value sp)
             \<and> direction w = (if dir = ''VRB'' then VRB else Deg (int (digits_value dir))))"
    if w: "parse_metar metar = Some w" for w
  proof -
    from w p have w': "w = \<lparr>direction = (if dir = ''VRB'' then VRB else Deg (int (digits_value dir))),
            speed = int (digits_value sp), raw_metar = metar\<rparr>" by simp
    have "metar = pre @ dir @ sp @ ''KT'' @ post \<and> wind_group dir sp
             \<and> (\<forall>pre' dir' sp' post'.
                   metar = pre' @ dir' @ sp' @ ''KT'' @ post' \<and> wind_group dir' sp'
                   \<longrightarrow> length pre \<le> length pre')
             \<and> speed w = int (digits_value sp)
             \<and> direction w = (if dir = ''VRB'' then VRB else Deg (int (digits_value dir)))"
      using g unfolding w' by simp
    then show ?thesis unfolding w' by (simp only: wind_data.simps) blast
  qed
  with has p show ?thesis by simp
qed

theorem parse_metar_wind_group_witness:
  "has_wind_group ''ENBR 121350Z 27010KT 9999''
   \<and> parse_metar ''ENBR 121350Z 27010KT 9999''
       = Some \<lparr>direction = Deg 270, speed = 10, raw_metar = ''ENBR 121350Z 27010KT 9999''\<rparr>
   \<and> parse_metar ''ENGM 121350Z VRB05KT CAVOK''
       = Some \<lparr>direction = VRB, speed = 5, raw_metar = ''ENGM 121350Z VRB05KT CAVOK''\<rparr>
   \<and> \<not> has_wind_group ''ENBR 121350Z /////KT 9999''
   \<and> parse_metar ''ENBR 121350Z /////KT 9999'' = None"
proof -
  have a: "parse_metar ''ENBR 121350Z 27010KT 9999''
       = Some \<lparr>direction = Deg 270, speed = 10, raw_metar = ''ENBR 121350Z 27010KT 9999''\<rparr>"
    by (simp add: parse_metar_def match_here_def match_speed_def digits_at_def is_digit_def
        py_int_def strip_def is_space_def int_literal_def digit_val_def)
  have b: "parse_metar ''ENGM 121350Z VRB05KT CAVOK''
       = Some \<lparr>direction = VRB, speed = 5, raw_metar = ''ENGM 121350Z VRB05KT CAVOK''\<rparr>"
    by (simp add: parse_metar_def match_here_def match_speed_def digits_at_def is_digit_def
        py_int_def strip_def is_space_def int_literal_def digit_val_def)
  have c: "parse_metar ''ENBR 121350Z /////KT 9999'' = None"
    by (simp add: parse_metar_def match_here_def match_speed_def digits_at_def is_digit_def)
  from parse_metar_wind_group [of "''ENBR 121350Z 27010KT 9999''"] a
  have d: "has_wind_group ''ENBR 121350Z 27010KT 9999''" by simp
  from parse_metar_wind_group [of "''ENBR 121350Z /////KT 9999''"] c
  have e: "\<not> has_wind_group ''ENBR 121350Z /////KT 9999''" by simp
  from a b c d e show ?thesis by simp
qed


section \<open>Directional wind\<close>

subsection \<open>The two loops as folds\<close>

lemma consider_runway_ok:
  assumes "float_ok (hdg1 r)" "float_ok (hdg2 r)" "float_ok d" "float_ok s"
  shows "consider_runway fl d s r st = Inr (best_step fl d s (candidate fl d s r) st)"
proof (cases st)
  case (Pair b bh)
  show ?thesis
    using assms unfolding Pair
    by (auto simp: consider_runway_def cwc_ok candidate_def)
qed

lemma for_each_consider:
  "floats_ok rs \<Longrightarrow> float_ok d \<Longrightarrow> float_ok s \<Longrightarrow>
   for_each (consider_runway fl d s) rs st = Inr (fold (best_step fl d s) (map (candidate fl d s) rs) st)"
  by (induction rs arbitrary: st) (simp_all add: floats_ok_def consider_runway_ok)

lemma least_crosswind_ok:
  assumes "float_ok (hdg1 r)" "float_ok (hdg2 r)" "float_ok d" "float_ok s"
  shows "least_crosswind fl d s r st =
         Inr (min_step fl d s (rwy2 r, hdg2 r) (min_step fl d s (rwy1 r, hdg1 r) st))"
proof (cases st)
  case (Pair m b)
  show ?thesis
    using assms unfolding Pair
    by (simp add: least_crosswind_def cwc_ok Let_def)
qed

lemma for_each_least:
  "floats_ok rs \<Longrightarrow> float_ok d \<Longrightarrow> float_ok s \<Longrightarrow>
   for_each (least_crosswind fl d s) rs st = Inr (fold (min_step fl d s) (headings rs) st)"
  by (induction rs arbitrary: st) (simp_all add: floats_ok_def least_crosswind_ok headings_def)

lemma lt_float_trans: "x < y \<Longrightarrow> lt_float y m \<Longrightarrow> lt_float x m"
  by (cases m) auto

lemma fold_min_step:
  "fold (min_step fl d s) xs (m, b) = (m', b') \<Longrightarrow>
     ((m', b') = (m, b) \<and> (\<forall>(n, h) \<in> set xs. \<not> lt_float (crosswind fl h d s) m))
   \<or> (\<exists>pre n h post. xs = pre @ (n, h) # post \<and> m' = Fin (crosswind fl h d s) \<and> b' = Some n
        \<and> lt_float (crosswind fl h d s) m
        \<and> (\<forall>(n', h') \<in> set pre. crosswind fl h d s < crosswind fl h' d s)
        \<and> (\<forall>(n', h') \<in> set post. crosswind fl h d s \<le> crosswind fl h' d s))"
proof (induction xs arbitrary: m b)
  case Nil
  then show ?case by simp
next
  case (Cons x xs)
  obtain n0 h0 where x: "x = (n0, h0)" by (cases x)
  show ?case
  proof (cases "lt_float (crosswind fl h0 d s) m")
    case True
    with Cons.prems x have f: "fold (min_step fl d s) xs (Fin (crosswind fl h0 d s), Some n0) = (m', b')"
      by simp
    from Cons.IH [OF f] show ?thesis
    proof (elim disjE conjE exE)
      assume "(m', b') = (Fin (crosswind fl h0 d s), Some n0)"
        and "\<forall>(n, h) \<in> set xs. \<not> lt_float (crosswind fl h d s) (Fin (crosswind fl h0 d s))"
      then have "x # xs = [] @ (n0, h0) # xs \<and> m' = Fin (crosswind fl h0 d s) \<and> b' = Some n0
        \<and> lt_float (crosswind fl h0 d s) m
        \<and> (\<forall>(n', h') \<in> set []. crosswind fl h0 d s < crosswind fl h' d s)
        \<and> (\<forall>(n', h') \<in> set xs. crosswind fl h0 d s \<le> crosswind fl h' d s)"
        using True x by (auto simp: not_less)
      then show ?thesis by blast
    next
      fix pre n h post
      assume a: "xs = pre @ (n, h) # post" "m' = Fin (crosswind fl h d s)" "b' = Some n"
        "lt_float (crosswind fl h d s) (Fin (crosswind fl h0 d s))"
        "\<forall>(n', h') \<in> set pre. crosswind fl h d s < crosswind fl h' d s"
        "\<forall>(n', h') \<in> set post. crosswind fl h d s \<le> crosswind fl h' d s"
      then have "x # xs = ((n0, h0) # pre) @ (n, h) # post \<and> m' = Fin (crosswind fl h d s) \<and> b' = Some n
        \<and> lt_float (crosswind fl h d s) m
        \<and> (\<forall>(n', h') \<in> set ((n0, h0) # pre). crosswind fl h d s < crosswind fl h' d s)
        \<and> (\<forall>(n', h') \<in> set post. crosswind fl h d s \<le> crosswind fl h' d s)"
        using True x lt_float_trans [of "crosswind fl h d s" "crosswind fl h0 d s" m] by auto
      then show ?thesis by blast
    qed
  next
    case False
    with Cons.prems x have f: "fold (min_step fl d s) xs (m, b) = (m', b')"
      by simp
    from Cons.IH [OF f] show ?thesis
    proof (elim disjE conjE exE)
      assume "(m', b') = (m, b)" and "\<forall>(n, h) \<in> set xs. \<not> lt_float (crosswind fl h d s) m"
      then show ?thesis using False x by auto
    next
      fix pre n h post
      assume a: "xs = pre @ (n, h) # post" "m' = Fin (crosswind fl h d s)" "b' = Some n"
        "lt_float (crosswind fl h d s) m"
        "\<forall>(n', h') \<in> set pre. crosswind fl h d s < crosswind fl h' d s"
        "\<forall>(n', h') \<in> set post. crosswind fl h d s \<le> crosswind fl h' d s"
      have "crosswind fl h d s < crosswind fl h0 d s"
        using False a(4) by (cases m) auto
      then have "x # xs = ((n0, h0) # pre) @ (n, h) # post \<and> m' = Fin (crosswind fl h d s) \<and> b' = Some n
        \<and> lt_float (crosswind fl h d s) m
        \<and> (\<forall>(n', h') \<in> set ((n0, h0) # pre). crosswind fl h d s < crosswind fl h' d s)
        \<and> (\<forall>(n', h') \<in> set post. crosswind fl h d s \<le> crosswind fl h' d s)"
        using a x by auto
      then show ?thesis by blast
    qed
  qed
qed

lemma gt_float_trans: "y < x \<Longrightarrow> gt_float y bh \<Longrightarrow> gt_float x bh"
  by (cases bh) auto

lemma fold_best_step:
  "fold (best_step fl d s) xs (b, bh) = (b', bh') \<Longrightarrow>
     ((b', bh') = (b, bh)
        \<and> (\<forall>(n, h) \<in> set xs. crosswind fl h d s \<le> 25 \<longrightarrow> \<not> gt_float (headwind fl h d s) bh))
   \<or> (\<exists>pre n h post. xs = pre @ (n, h) # post \<and> b' = Some n \<and> bh' = Fin (headwind fl h d s)
        \<and> crosswind fl h d s \<le> 25 \<and> gt_float (headwind fl h d s) bh
        \<and> (\<forall>(n', h') \<in> set pre. crosswind fl h' d s \<le> 25 \<longrightarrow> headwind fl h' d s < headwind fl h d s)
        \<and> (\<forall>(n', h') \<in> set post. crosswind fl h' d s \<le> 25 \<longrightarrow> headwind fl h' d s \<le> headwind fl h d s))"
proof (induction xs arbitrary: b bh)
  case Nil
  then show ?case by simp
next
  case (Cons x xs)
  obtain n0 h0 where x: "x = (n0, h0)" by (cases x)
  show ?case
  proof (cases "crosswind fl h0 d s \<le> 25 \<and> gt_float (headwind fl h0 d s) bh")
    case True
    with Cons.prems x have f: "fold (best_step fl d s) xs (Some n0, Fin (headwind fl h0 d s)) = (b', bh')"
      by simp
    from Cons.IH [OF f] show ?thesis
    proof (elim disjE conjE exE)
      assume "(b', bh') = (Some n0, Fin (headwind fl h0 d s))"
        and "\<forall>(n, h) \<in> set xs. crosswind fl h d s \<le> 25 \<longrightarrow> \<not> gt_float (headwind fl h d s) (Fin (headwind fl h0 d s))"
      then have "x # xs = [] @ (n0, h0) # xs \<and> b' = Some n0 \<and> bh' = Fin (headwind fl h0 d s)
        \<and> crosswind fl h0 d s \<le> 25 \<and> gt_float (headwind fl h0 d s) bh
        \<and> (\<forall>(n', h') \<in> set []. crosswind fl h' d s \<le> 25 \<longrightarrow> headwind fl h' d s < headwind fl h0 d s)
        \<and> (\<forall>(n', h') \<in> set xs. crosswind fl h' d s \<le> 25 \<longrightarrow> headwind fl h' d s \<le> headwind fl h0 d s)"
        using True x by (auto simp: not_less)
      then show ?thesis by blast
    next
      fix pre n h post
      assume a: "xs = pre @ (n, h) # post" "b' = Some n" "bh' = Fin (headwind fl h d s)"
        "crosswind fl h d s \<le> 25" "gt_float (headwind fl h d s) (Fin (headwind fl h0 d s))"
        "\<forall>(n', h') \<in> set pre. crosswind fl h' d s \<le> 25 \<longrightarrow> headwind fl h' d s < headwind fl h d s"
        "\<forall>(n', h') \<in> set post. crosswind fl h' d s \<le> 25 \<longrightarrow> headwind fl h' d s \<le> headwind fl h d s"
      then have "x # xs = ((n0, h0) # pre) @ (n, h) # post \<and> b' = Some n \<and> bh' = Fin (headwind fl h d s)
        \<and> crosswind fl h d s \<le> 25 \<and> gt_float (headwind fl h d s) bh
        \<and> (\<forall>(n', h') \<in> set ((n0, h0) # pre). crosswind fl h' d s \<le> 25 \<longrightarrow> headwind fl h' d s < headwind fl h d s)
        \<and> (\<forall>(n', h') \<in> set post. crosswind fl h' d s \<le> 25 \<longrightarrow> headwind fl h' d s \<le> headwind fl h d s)"
        using True x gt_float_trans [of "headwind fl h0 d s" "headwind fl h d s" bh] by auto
      then show ?thesis by blast
    qed
  next
    case False
    with Cons.prems x have f: "fold (best_step fl d s) xs (b, bh) = (b', bh')"
      by auto
    from Cons.IH [OF f] show ?thesis
    proof (elim disjE conjE exE)
      assume "(b', bh') = (b, bh)"
        and "\<forall>(n, h) \<in> set xs. crosswind fl h d s \<le> 25 \<longrightarrow> \<not> gt_float (headwind fl h d s) bh"
      then show ?thesis using False x by auto
    next
      fix pre n h post
      assume a: "xs = pre @ (n, h) # post" "b' = Some n" "bh' = Fin (headwind fl h d s)"
        "crosswind fl h d s \<le> 25" "gt_float (headwind fl h d s) bh"
        "\<forall>(n', h') \<in> set pre. crosswind fl h' d s \<le> 25 \<longrightarrow> headwind fl h' d s < headwind fl h d s"
        "\<forall>(n', h') \<in> set post. crosswind fl h' d s \<le> 25 \<longrightarrow> headwind fl h' d s \<le> headwind fl h d s"
      have "crosswind fl h0 d s \<le> 25 \<longrightarrow> headwind fl h0 d s < headwind fl h d s"
        using False a(5) by (cases bh) auto
      then have "x # xs = ((n0, h0) # pre) @ (n, h) # post \<and> b' = Some n \<and> bh' = Fin (headwind fl h d s)
        \<and> crosswind fl h d s \<le> 25 \<and> gt_float (headwind fl h d s) bh
        \<and> (\<forall>(n', h') \<in> set ((n0, h0) # pre). crosswind fl h' d s \<le> 25 \<longrightarrow> headwind fl h' d s < headwind fl h d s)
        \<and> (\<forall>(n', h') \<in> set post. crosswind fl h' d s \<le> 25 \<longrightarrow> headwind fl h' d s \<le> headwind fl h d s)"
        using a x by auto
      then show ?thesis by blast
    qed
  qed
qed

lemma candidate_in_headings: "r \<in> set rs \<Longrightarrow> candidate fl d s r \<in> set (headings rs)"
  by (auto simp: candidate_def headings_def)

lemma fold_best_step_none:
  "\<forall>(n, h) \<in> set xs. 25 < crosswind fl h d s \<Longrightarrow> fold (best_step fl d s) xs st = st"
proof (induction xs arbitrary: st)
  case Nil
  then show ?case by simp
next
  case (Cons x xs)
  obtain n0 h0 where x: "x = (n0, h0)" by (cases x)
  obtain b bh where st: "st = (b, bh)" by (cases st)
  from Cons.prems x have "25 < crosswind fl h0 d s" by simp
  then have "best_step fl d s x st = st" by (simp add: x st)
  with Cons show ?case by simp
qed

lemma select_directional_fallback:
  assumes ok: "floats_ok runway_data" "float_ok d" "float_ok s"
    and ne: "runway_data \<noteq> []"
    and none: "\<forall>(n, h) \<in> set (map (candidate fl d s) runway_data). 25 < crosswind fl h d s"
  shows "\<exists>pre n h post. headings runway_data = pre @ (n, h) # post
      \<and> (\<forall>(n', h') \<in> set pre. crosswind fl h d s < crosswind fl h' d s)
      \<and> (\<forall>(n', h') \<in> set post. crosswind fl h d s \<le> crosswind fl h' d s)
      \<and> select_directional fl runway_data d s
          = Inr (Rwy n, ''Selected runway '' @ n @ '' based on wind '' @ py_str_int d @ ''@''
                   @ py_str_int s @ ''KT'', True)"
proof -
  have first: "for_each (consider_runway fl d s) runway_data (None, NegInf) = Inr (None, NegInf)"
    using ok none by (simp add: for_each_consider fold_best_step_none)
  obtain m' b' where f: "fold (min_step fl d s) (headings runway_data) (PosInf, None) = (m', b')"
    by (cases "fold (min_step fl d s) (headings runway_data) (PosInf, None)")
  have second: "for_each (least_crosswind fl d s) runway_data (PosInf, None) = Inr (m', b')"
    using ok f by (simp add: for_each_least)
  obtain r rs where rs: "runway_data = r # rs" using ne by (cases runway_data) auto
  have "(rwy1 r, hdg1 r) \<in> set (headings runway_data)" by (simp add: rs headings_def)
  then have "\<not> (\<forall>(n, h) \<in> set (headings runway_data). \<not> lt_float (crosswind fl h d s) PosInf)"
    by auto
  with fold_min_step [OF f] obtain pre n h post where
    s: "headings runway_data = pre @ (n, h) # post" "m' = Fin (crosswind fl h d s)" "b' = Some n"
      "\<forall>(n', h') \<in> set pre. crosswind fl h d s < crosswind fl h' d s"
      "\<forall>(n', h') \<in> set post. crosswind fl h d s \<le> crosswind fl h' d s"
    by blast
  have "select_directional fl runway_data d s
          = Inr (Rwy n, ''Selected runway '' @ n @ '' based on wind '' @ py_str_int d @ ''@''
                   @ py_str_int s @ ''KT'', True)"
    by (simp add: select_directional_def first second s falsy_def to_selected_def py_str_def)
  with s show ?thesis by blast
qed

lemma select_directional_best:
  assumes ok: "floats_ok runway_data" "float_ok d" "float_ok s"
    and names: "list_all (\<lambda>r. rwy1 r \<noteq> [] \<and> rwy2 r \<noteq> []) runway_data"
    and some: "\<exists>(n, h) \<in> set (map (candidate fl d s) runway_data). crosswind fl h d s \<le> 25"
  shows "\<exists>pre n h post. map (candidate fl d s) runway_data = pre @ (n, h) # post
      \<and> crosswind fl h d s \<le> 25
      \<and> (\<forall>(n', h') \<in> set pre. crosswind fl h' d s \<le> 25 \<longrightarrow> headwind fl h' d s < headwind fl h d s)
      \<and> (\<forall>(n', h') \<in> set post. crosswind fl h' d s \<le> 25 \<longrightarrow> headwind fl h' d s \<le> headwind fl h d s)
      \<and> select_directional fl runway_data d s
          = Inr (Rwy n, ''Selected runway '' @ n @ '' based on wind '' @ py_str_int d @ ''@''
                   @ py_str_int s @ ''KT'', False)"
proof -
  obtain b' bh' where f: "fold (best_step fl d s) (map (candidate fl d s) runway_data) (None, NegInf) = (b', bh')"
    by (cases "fold (best_step fl d s) (map (candidate fl d s) runway_data) (None, NegInf)")
  have first: "for_each (consider_runway fl d s) runway_data (None, NegInf) = Inr (b', bh')"
    using ok f by (simp add: for_each_consider)
  from some have "\<not> (\<forall>(n, h) \<in> set (map (candidate fl d s) runway_data).
      crosswind fl h d s \<le> 25 \<longrightarrow> \<not> gt_float (headwind fl h d s) NegInf)"
    by fastforce
  with fold_best_step [OF f] obtain pre n h post where
    s: "map (candidate fl d s) runway_data = pre @ (n, h) # post" "b' = Some n"
      "crosswind fl h d s \<le> 25"
      "\<forall>(n', h') \<in> set pre. crosswind fl h' d s \<le> 25 \<longrightarrow> headwind fl h' d s < headwind fl h d s"
      "\<forall>(n', h') \<in> set post. crosswind fl h' d s \<le> 25 \<longrightarrow> headwind fl h' d s \<le> headwind fl h d s"
    by blast
  have "(n, h) \<in> set (map (candidate fl d s) runway_data)" by (simp add: s(1))
  then obtain r where "r \<in> set runway_data" "candidate fl d s r = (n, h)" by auto
  then have "n \<noteq> []"
    using names by (auto simp: list_all_iff candidate_def split: if_splits)
  then have "select_directional fl runway_data d s
          = Inr (Rwy n, ''Selected runway '' @ n @ '' based on wind '' @ py_str_int d @ ''@''
                   @ py_str_int s @ ''KT'', False)"
    by (simp add: select_directional_def first s falsy_def to_selected_def py_str_def)
  with s show ?thesis by blast
qed

lemma select_directional_returns:
  assumes ok: "floats_ok runway_data" "float_ok d" "float_ok s"
  shows "\<exists>res. select_directional fl runway_data d s = Inr res"
  using ok by (auto simp: select_directional_def for_each_consider for_each_least split: prod.splits)

lemma select_runway_directional:
  "\<not> hub_override airport raw \<Longrightarrow>
   select_runway fl airport runway_data (Some \<lparr>direction = Deg d, speed = s, raw_metar = raw\<rparr>) console
     = (select_directional fl runway_data d s, console)"
  by (auto simp: select_runway_def hub_override_def)

lemma get_engm_config_valid:
  "list_ex valid_choice console \<Longrightarrow> \<exists>cfg rest. get_engm_config console = (Inr cfg, rest)"
  by (induction console) (auto simp: valid_choice_def)

lemma get_engm_config_eof:
  "\<not> list_ex valid_choice console \<Longrightarrow> get_engm_config console = (Inl EOFError, [])"
  by (induction console) (auto simp: valid_choice_def)

lemma calm_cwc:
  "float_ok h \<Longrightarrow> float_ok d \<Longrightarrow> calculate_wind_components fl h d 0 = Inr (0, 0)"
  by (simp add: cwc_ok calm_components float_ok_def)

lemma exact_cwc:
  "float_ok h \<Longrightarrow> float_ok d \<Longrightarrow> float_ok s \<Longrightarrow>
   calculate_wind_components exact_unit h d s = Inr (true_headwind h d s, true_crosswind h d s)"
  by (simp add: cwc_ok exact_components)

lemmas directional_eval =
  select_runway_def select_directional_def consider_runway_def least_crosswind_def
  falsy_def to_selected_def py_str_def py_str_int_def digit_char_def

subsection \<open>The heading of greatest headwind\<close>

text \<open>
  Claim C2, as the specification states it, fails. It says that among all headings with
  a crosswind of at most 25 knots the first of greatest headwind is returned, and that a
  heading is never left out because of the opposite heading of its runway. With a calm
  wind (speed 0) on the single runway 18/36 both headings have crosswind 0 and headwind
  0 on every float unit, so the rule names the first heading, 18; \<^verbatim>\<open>select_runway\<close>
  returns 36, because it looks at the first heading of a runway only when its headwind
  is strictly greater than that of the second.
\<close>

theorem select_runway_first_heading_counterexample:
  "\<forall>fl.
     select_runway fl ''ENXX''
        [\<lparr>rwy1 = ''18'', rwy2 = ''36'', hdg1 = 177, hdg2 = 357, rwy_airport = ''ENXX''\<rparr>]
        (Some \<lparr>direction = Deg 0, speed = 0, raw_metar = ''ENXX 121350Z 00000KT''\<rparr>) []
       = (Inr (Rwy ''36'', ''Selected runway 36 based on wind 0@0KT'', False), [])
     \<and> crosswind fl 177 0 0 \<le> 25
     \<and> spec_greatest_headwind fl
          [\<lparr>rwy1 = ''18'', rwy2 = ''36'', hdg1 = 177, hdg2 = 357, rwy_airport = ''ENXX''\<rparr>] 0 0
       = Some ''18''"
  by (simp add: directional_eval calm_cwc calm_components float_ok_def
      spec_greatest_headwind_def headings_def)

text \<open>
  Claim C2, amended. For an airport with a directional observation to which the ENGM
  override does not apply (headings, direction and speed convert to a float, no
  designator is empty): each runway contributes one candidate heading, its first when
  that has the strictly greater computed headwind and else its second. When some
  candidate has a computed crosswind of at most 25 knots, \<^verbatim>\<open>select_runway\<close> returns the
  candidate of greatest headwind among those, the first in catalog order among equals,
  and does not ask for the rationale to be shown. This holds on every float unit.
\<close>

theorem select_runway_greatest_headwind:
  assumes "\<not> hub_override airport raw"
    and "floats_ok runway_data" and "float_ok d" and "float_ok s"
    and "list_all (\<lambda>r. rwy1 r \<noteq> [] \<and> rwy2 r \<noteq> []) runway_data"
    and "list_ex (\<lambda>(n, h). crosswind fl h d s \<le> 25) (map (candidate fl d s) runway_data)"
  shows "\<exists>pre n h post. map (candidate fl d s) runway_data = pre @ (n, h) # post
      \<and> crosswind fl h d s \<le> 25
      \<and> (\<forall>(n', h') \<in> set pre. crosswind fl h' d s \<le> 25 \<longrightarrow> headwind fl h' d s < headwind fl h d s)
      \<and> (\<forall>(n', h') \<in> set post. crosswind fl h' d s \<le> 25 \<longrightarrow> headwind fl h' d s \<le> headwind fl h d s)
      \<and> select_runway fl airport runway_data
            (Some \<lparr>direction = Deg d, speed = s, raw_metar = raw\<rparr>) console
          = (Inr (Rwy n, ''Selected runway '' @ n @ '' based on wind '' @ py_str_int d @ ''@''
                   @ py_str_int s @ ''KT'', False), console)"
proof -
  from assms(6)
  have "\<exists>(n, h) \<in> set (map (candidate fl d s) runway_data). crosswind fl h d s \<le> 25"
    by (simp add: list_ex_iff)
  from select_directional_best [OF assms(2-5) this] show ?thesis
    by (simp add: select_runway_directional [OF assms(1)])
qed

text \<open>
  The witness applies the theorem twice. On every float unit, with a calm wind on the
  runways 18/36 and 10/28, each runway contributes its second heading and the first of
  the two equal candidates, 36, is returned. On the unit that does not round, with the
  wind from 90 at 20 knots on 36/18, 09L/27R and 09R/27L, the candidates are 18 (a tie on
  its runway), 09L and 09R; 09L has a greater headwind than 18 and comes before 09R.
\<close>

theorem select_runway_greatest_headwind_witness:
  "(\<forall>fl.
      list_ex (\<lambda>(n, h). crosswind fl h 0 0 \<le> 25)
        (map (candidate fl 0 0)
           [\<lparr>rwy1 = ''18'', rwy2 = ''36'', hdg1 = 177, hdg2 = 357, rwy_airport = ''ENXX''\<rparr>,
            \<lparr>rwy1 = ''10'', rwy2 = ''28'', hdg1 = 100, hdg2 = 280, rwy_airport = ''ENXX''\<rparr>])
      \<and> select_runway fl ''ENXX''
           [\<lparr>rwy1 = ''18'', rwy2 = ''36'', hdg1 = 177, hdg2 = 357, rwy_airport = ''ENXX''\<rparr>,
            \<lparr>rwy1 = ''10'', rwy2 = ''28'', hdg1 = 100, hdg2 = 280, rwy_airport = ''ENXX''\<rparr>]
           (Some \<lparr>direction = Deg 0, speed = 0, raw_metar = ''ENXX 121350Z 00000KT''\<rparr>) []
         = (Inr (Rwy ''36'', ''Selected runway 36 based on wind 0@0KT'', False), []))
   \<and> \<not> hub_override ''ENXX'' ''ENXX 121350Z 09020KT''
   \<and> map (candidate exact_unit 90 20)
        [\<lparr>rwy1 = ''36'', rwy2 = ''18'', hdg1 = 0, hdg2 = 180, rwy_airport = ''ENXX''\<rparr>,
         \<lparr>rwy1 = ''09L'', rwy2 = ''27R'', hdg1 = 90, hdg2 = 270, rwy_airport = ''ENXX''\<rparr>,
         \<lparr>rwy1 = ''09R'', rwy2 = ''27L'', hdg1 = 90, hdg2 = 270, rwy_airport = ''ENXX''\<rparr>]
      = [(''18'', 180), (''09L'', 90), (''09R'', 90)]
   \<and> select_runway exact_unit ''ENXX''
        [\<lparr>rwy1 = ''36'', rwy2 = ''18'', hdg1 = 0, hdg2 = 180, rwy_airport = ''ENXX''\<rparr>,
         \<lparr>rwy1 = ''09L'', rwy2 = ''27R'', hdg1 = 90, hdg2 = 270, rwy_airport = ''ENXX''\<rparr>,
         \<lparr>rwy1 = ''09R'', rwy2 = ''27L'', hdg1 = 90, hdg2 = 270, rwy_airport = ''ENXX''\<rparr>]
        (Some \<lparr>direction = Deg 90, speed = 20, raw_metar = ''ENXX 121350Z 09020KT''\<rparr>) []
      = (Inr (Rwy ''09L'', ''Selected runway 09L based on wind 90@20KT'', False), [])"
proof -
  let ?calm = "[\<lparr>rwy1 = ''18'', rwy2 = ''36'', hdg1 = 177, hdg2 = 357, rwy_airport = ''ENXX''\<rparr>,
            \<lparr>rwy1 = ''10'', rwy2 = ''28'', hdg1 = 100, hdg2 = 280, rwy_airport = ''ENXX''\<rparr>]"
  let ?rs = "[\<lparr>rwy1 = ''36'', rwy2 = ''18'', hdg1 = 0, hdg2 = 180, rwy_airport = ''ENXX''\<rparr>,
         \<lparr>rwy1 = ''09L'', rwy2 = ''27R'', hdg1 = 90, hdg2 = 270, rwy_airport = ''ENXX''\<rparr>,
         \<lparr>rwy1 = ''09R'', rwy2 = ''27L'', hdg1 = 90, hdg2 = 270, rwy_airport = ''ENXX''\<rparr>]"
  have calm: "list_ex (\<lambda>(n, h). crosswind fl h 0 0 \<le> 25) (map (candidate fl 0 0) ?calm)
      \<and> select_runway fl ''ENXX'' ?calm
           (Some \<lparr>direction = Deg 0, speed = 0, raw_metar = ''ENXX 121350Z 00000KT''\<rparr>) []
         = (Inr (Rwy ''36'', ''Selected runway 36 based on wind 0@0KT'', False), [])" for fl
  proof -
    have c: "map (candidate fl 0 0) ?calm = [(''36'', 357), (''28'', 280)]"
      by (simp add: candidate_def calm_components)
    have g1: "\<not> hub_override ''ENXX'' ''ENXX 121350Z 00000KT''" by (simp add: hub_override_def)
    have g2: "floats_ok ?calm" "float_ok 0" by (simp_all add: floats_ok_def float_ok_def)
    have g3: "list_all (\<lambda>r. rwy1 r \<noteq> [] \<and> rwy2 r \<noteq> []) ?calm" by simp
    have g4: "list_ex (\<lambda>(n, h). crosswind fl h 0 0 \<le> 25) (map (candidate fl 0 0) ?calm)"
      unfolding c by (simp add: calm_components)
    from select_runway_greatest_headwind [OF g1 g2(1) g2(2) g2(2) g3 g4, of "[]"]
    obtain pre n h post where
      s: "map (candidate fl 0 0) ?calm = pre @ (n, h) # post"
      and m: "\<forall>(n', h') \<in> set pre. crosswind fl h' 0 0 \<le> 25
                \<longrightarrow> headwind fl h' 0 0 < headwind fl h 0 0"
      and r: "select_runway fl ''ENXX'' ?calm
          (Some \<lparr>direction = Deg 0, speed = 0, raw_metar = ''ENXX 121350Z 00000KT''\<rparr>) []
        = (Inr (Rwy n, ''Selected runway '' @ n @ '' based on wind '' @ py_str_int 0 @ ''@''
                     @ py_str_int 0 @ ''KT'', False), [])"
      by blast
    have "pre = []"
    proof (cases pre)
      case Nil
      then show ?thesis .
    next
      case (Cons p ps)
      obtain n' h' where p: "p = (n', h')" by (cases p)
      from m Cons p
      have "crosswind fl h' 0 0 \<le> 25 \<longrightarrow> headwind fl h' 0 0 < headwind fl h 0 0" by auto
      then show ?thesis by (simp add: calm_components)
    qed
    with s have "n = ''36''" unfolding c by simp
    with r g4 show ?thesis by (simp add: py_str_int_def digit_char_def)
  qed
  have tv: "true_headwind 0 90 20 = 0" "true_headwind 180 90 20 = 0" "true_headwind 90 90 20 = 20"
    "true_headwind 270 90 20 = - 20" "true_crosswind 180 90 20 = 20" "true_crosswind 90 90 20 = 0"
    by (simp_all add: true_headwind_def true_crosswind_def)
  have c: "map (candidate exact_unit 90 20) ?rs = [(''18'', 180), (''09L'', 90), (''09R'', 90)]"
    by (simp add: candidate_def exact_components tv)
  have h1: "\<not> hub_override ''ENXX'' ''ENXX 121350Z 09020KT''" by (simp add: hub_override_def)
  have h2: "floats_ok ?rs" "float_ok 90" "float_ok 20" by (simp_all add: floats_ok_def float_ok_def)
  have h3: "list_all (\<lambda>r. rwy1 r \<noteq> [] \<and> rwy2 r \<noteq> []) ?rs" by simp
  have h4: "list_ex (\<lambda>(n, h). crosswind exact_unit h 90 20 \<le> 25) (map (candidate exact_unit 90 20) ?rs)"
    unfolding c by (simp add: exact_components tv)
  from select_runway_greatest_headwind [OF h1 h2 h3 h4, of "[]"]
  obtain pre n h post where
    s: "map (candidate exact_unit 90 20) ?rs = pre @ (n, h) # post"
    and m1: "\<forall>(n', h') \<in> set pre. crosswind exact_unit h' 90 20 \<le> 25
              \<longrightarrow> headwind exact_unit h' 90 20 < headwind exact_unit h 90 20"
    and m2: "\<forall>(n', h') \<in> set post. crosswind exact_unit h' 90 20 \<le> 25
              \<longrightarrow> headwind exact_unit h' 90 20 \<le> headwind exact_unit h 90 20"
    and r: "select_runway exact_unit ''ENXX'' ?rs
        (Some \<lparr>direction = Deg 90, speed = 20, raw_metar = ''ENXX 121350Z 09020KT''\<rparr>) []
      = (Inr (Rwy n, ''Selected runway '' @ n @ '' based on wind '' @ py_str_int 90 @ ''@''
                   @ py_str_int 20 @ ''KT'', False), [])"
    by blast
  from s consider
      "pre = []" "(n, h) = (''18'', 180)" "post = [(''09L'', 90), (''09R'', 90)]"
    | "pre = [(''18'', 180)]" "(n, h) = (''09L'', 90)" "post = [(''09R'', 90)]"
    | "pre = [(''18'', 180), (''09L'', 90)]" "(n, h) = (''09R'', 90)" "post = []"
    unfolding c by (cases pre; cases "tl pre"; cases "tl (tl pre)") auto
  then have "n = ''09L''"
  proof cases
    case 1
    with m2 show ?thesis by (simp add: exact_components tv)
  next
    case 2
    then show ?thesis by simp
  next
    case 3
    with m1 show ?thesis by (simp add: exact_components tv)
  qed
  with r have "select_runway exact_unit ''ENXX'' ?rs
        (Some \<lparr>direction = Deg 90, speed = 20, raw_metar = ''ENXX 121350Z 09020KT''\<rparr>) []
      = (Inr (Rwy ''09L'', ''Selected runway 09L based on wind 90@20KT'', False), [])"
    by (simp add: py_str_int_def digit_char_def)
  with calm h1 c show ?thesis by blast
qed

subsection \<open>The fallback\<close>

text \<open>
  Claim C5. For an airport with a directional observation in the general case, that
  is, when the ENGM override, which comes first, does not apply (a catalog that is not
  empty; headings, direction and speed convert to a float): if the computed crosswind
  of every heading of every runway exceeds 25 knots, \<^verbatim>\<open>select_runway\<close> returns the
  heading of least crosswind over all runways and both headings of each, the first in
  encounter order when several have the same least float, and the flag that asks for
  the rationale to be shown is true. This holds on every float unit.
\<close>

theorem select_runway_fallback:
  assumes "\<not> hub_override airport raw"
    and "runway_data \<noteq> []"
    and "floats_ok runway_data" and "float_ok d" and "float_ok s"
    and "list_all (\<lambda>(n, h). 25 < crosswind fl h d s) (headings runway_data)"
  shows "\<exists>pre n h post. headings runway_data = pre @ (n, h) # post
      \<and> (\<forall>(n', h') \<in> set pre. crosswind fl h d s < crosswind fl h' d s)
      \<and> (\<forall>(n', h') \<in> set post. crosswind fl h d s \<le> crosswind fl h' d s)
      \<and> select_runway fl airport runway_data
            (Some \<lparr>direction = Deg d, speed = s, raw_metar = raw\<rparr>) console
          = (Inr (Rwy n, ''Selected runway '' @ n @ '' based on wind '' @ py_str_int d @ ''@''
                   @ py_str_int s @ ''KT'', True), console)"
proof -
  have "\<forall>(n, h) \<in> set (map (candidate fl d s) runway_data). 25 < crosswind fl h d s"
    using assms(6) candidate_in_headings [of _ runway_data fl d s]
    by (fastforce simp: list_all_iff)
  from select_directional_fallback [OF assms(3-5) assms(2) this] show ?thesis
    by (simp add: select_runway_directional [OF assms(1)])
qed

theorem select_runway_fallback_witness:
  "\<not> hub_override ''ENXX'' ''ENXX 121350Z 09030KT''
   \<and> floats_ok
        [\<lparr>rwy1 = ''36L'', rwy2 = ''18R'', hdg1 = 0, hdg2 = 180, rwy_airport = ''ENXX''\<rparr>,
         \<lparr>rwy1 = ''36R'', rwy2 = ''18L'', hdg1 = 0, hdg2 = 180, rwy_airport = ''ENXX''\<rparr>]
   \<and> float_ok 90 \<and> float_ok 30
   \<and> list_all (\<lambda>(n, h). 25 < crosswind exact_unit h 90 30)
        (headings
           [\<lparr>rwy1 = ''36L'', rwy2 = ''18R'', hdg1 = 0, hdg2 = 180, rwy_airport = ''ENXX''\<rparr>,
            \<lparr>rwy1 = ''36R'', rwy2 = ''18L'', hdg1 = 0, hdg2 = 180, rwy_airport = ''ENXX''\<rparr>])
   \<and> select_runway exact_unit ''ENXX''
        [\<lparr>rwy1 = ''36L'', rwy2 = ''18R'', hdg1 = 0, hdg2 = 180, rwy_airport = ''ENXX''\<rparr>,
         \<lparr>rwy1 = ''36R'', rwy2 = ''18L'', hdg1 = 0, hdg2 = 180, rwy_airport = ''ENXX''\<rparr>]
        (Some \<lparr>direction = Deg 90, speed = 30, raw_metar = ''ENXX 121350Z 09030KT''\<rparr>) []
      = (Inr (Rwy ''36L'', ''Selected runway 36L based on wind 90@30KT'', True), [])"
proof -
  let ?rs = "[\<lparr>rwy1 = ''36L'', rwy2 = ''18R'', hdg1 = 0, hdg2 = 180, rwy_airport = ''ENXX''\<rparr>,
         \<lparr>rwy1 = ''36R'', rwy2 = ''18L'', hdg1 = 0, hdg2 = 180, rwy_airport = ''ENXX''\<rparr>]"
  have xw: "crosswind exact_unit 0 90 30 = 30" "crosswind exact_unit 180 90 30 = 30"
    by (simp_all add: exact_components true_crosswind_def)
  have hs: "headings ?rs = [(''36L'', 0), (''18R'', 180), (''36R'', 0), (''18L'', 180)]"
    by (simp add: headings_def)
  have h1: "\<not> hub_override ''ENXX'' ''ENXX 121350Z 09030KT''" by (simp add: hub_override_def)
  have h0: "?rs \<noteq> []" by simp
  have h2: "floats_ok ?rs" "float_ok 90" "float_ok 30" by (simp_all add: floats_ok_def float_ok_def)
  have h4: "list_all (\<lambda>(n, h). 25 < crosswind exact_unit h 90 30) (headings ?rs)"
    by (simp add: hs xw)
  from select_runway_fallback [OF h1 h0 h2 h4, of "[]"]
  obtain pre n h post where
    s: "headings ?rs = pre @ (n, h) # post"
    and m: "\<forall>(n', h') \<in> set pre. crosswind exact_unit h 90 30 < crosswind exact_unit h' 90 30"
    and r: "select_runway exact_unit ''ENXX'' ?rs
        (Some \<lparr>direction = Deg 90, speed = 30, raw_metar = ''ENXX 121350Z 09030KT''\<rparr>) []
      = (Inr (Rwy n, ''Selected runway '' @ n @ '' based on wind '' @ py_str_int 90 @ ''@''
                   @ py_str_int 30 @ ''KT'', True), [])"
    by blast
  have all30: "crosswind exact_unit h' 90 30 = 30" if "(n', h') \<in> set (headings ?rs)" for n' h'
    using that by (auto simp: hs xw)
  have "pre = []"
  proof (cases pre)
    case Nil
    then show ?thesis .
  next
    case (Cons p ps)
    obtain n' h' where p: "p = (n', h')" by (cases p)
    have "(n', h') \<in> set (headings ?rs)" "(n, h) \<in> set (headings ?rs)"
      unfolding s Cons p by simp_all
    then have "crosswind exact_unit h' 90 30 = 30" "crosswind exact_unit h 90 30 = 30"
      using all30 by blast+
    with m Cons p show ?thesis by simp
  qed
  with s have "n = ''36L''" by (simp add: hs)
  with r have "select_runway exact_unit ''ENXX'' ?rs
        (Some \<lparr>direction = Deg 90, speed = 30, raw_metar = ''ENXX 121350Z 09030KT''\<rparr>) []
      = (Inr (Rwy ''36L'', ''Selected runway 36L based on wind 90@30KT'', True), [])"
    by (simp add: py_str_int_def digit_char_def)
  with h1 h2 h4 show ?thesis by blast
qed

subsection \<open>No crash on a directional observation\<close>

text \<open>
  Claim C9, as the specification states it, fails: not every integer is accepted.
  A direction of \<open>10 ^ 400\<close> does not convert to a float, and \<^verbatim>\<open>math.radians\<close> raises
  OverflowError. And at ENGM a report with the freezing-fog code leads to the console,
  where \<^verbatim>\<open>input\<close> raises EOFError when no line is left.
\<close>

theorem select_runway_overflow_counterexample:
  "\<forall>fl.
     select_runway fl ''ENBR''
        [\<lparr>rwy1 = ''17'', rwy2 = ''35'', hdg1 = 170, hdg2 = 350, rwy_airport = ''ENBR''\<rparr>]
        (Some \<lparr>direction = Deg (10 ^ 400), speed = 5, raw_metar = ''ENBR 121350Z''\<rparr>) []
       = (Inl OverflowError, [])
     \<and> select_runway fl ''ENGM''
        [\<lparr>rwy1 = ''01L'', rwy2 = ''19R'', hdg1 = 14, hdg2 = 194, rwy_airport = ''ENGM''\<rparr>]
        (Some \<lparr>direction = Deg 0, speed = 0, raw_metar = ''ENGM 121350Z 00000KT 0200 FZFG''\<rparr>) []
       = (Inl EOFError, [])"
  by (simp add: select_runway_def select_directional_def consider_runway_def
      calculate_wind_components_def to_float_def float_ok_def)

text \<open>
  Claim C9, amended. For every catalog that is not empty and every directional
  observation whose direction and speed are integers that convert to a float (as the
  headings do), of any sign and also outside 0 to 359, \<^verbatim>\<open>select_runway\<close> takes the
  observation as it is, raises nothing and returns a result, provided that the console
  holds a valid choice when the ENGM override asks for one. This holds on every float
  unit.
\<close>

theorem select_runway_directional_returns:
  assumes "runway_data \<noteq> []"
    and "floats_ok runway_data" and "float_ok d" and "float_ok s"
    and "hub_override airport raw \<longrightarrow> list_ex valid_choice console"
  shows "\<exists>sel message should_print rest.
           select_runway fl airport runway_data
             (Some \<lparr>direction = Deg d, speed = s, raw_metar = raw\<rparr>) console
           = (Inr (sel, message, should_print), rest)"
proof (cases "hub_override airport raw")
  case True
  with assms(5) obtain cfg rest where "get_engm_config console = (Inr cfg, rest)"
    using get_engm_config_valid by blast
  then show ?thesis
    using True by (cases cfg) (auto simp: select_runway_def hub_override_def)
next
  case False
  from select_directional_returns [OF assms(2-4)] obtain res where
    "select_directional fl runway_data d s = Inr res" by blast
  then show ?thesis
    by (cases res) (simp add: select_runway_directional [OF False])
qed

theorem select_runway_directional_returns_witness:
  "[\<lparr>rwy1 = ''36'', rwy2 = ''18'', hdg1 = 0, hdg2 = 180, rwy_airport = ''ENBR''\<rparr>] \<noteq> []
   \<and> floats_ok [\<lparr>rwy1 = ''36'', rwy2 = ''18'', hdg1 = 0, hdg2 = 180, rwy_airport = ''ENBR''\<rparr>]
   \<and> float_ok 450 \<and> float_ok (- 5)
   \<and> \<not> hub_override ''ENBR'' ''ENBR 121350Z''
   \<and> (\<forall>fl. \<exists>sel message should_print rest.
         select_runway fl ''ENBR''
           [\<lparr>rwy1 = ''36'', rwy2 = ''18'', hdg1 = 0, hdg2 = 180, rwy_airport = ''ENBR''\<rparr>]
           (Some \<lparr>direction = Deg 450, speed = - 5, raw_metar = ''ENBR 121350Z''\<rparr>) []
         = (Inr (sel, message, should_print), rest))"
proof -
  let ?rs = "[\<lparr>rwy1 = ''36'', rwy2 = ''18'', hdg1 = 0, hdg2 = 180, rwy_airport = ''ENBR''\<rparr>]"
  have h0: "?rs \<noteq> []" by simp
  have h2: "floats_ok ?rs" "float_ok 450" "float_ok (- 5)"
    by (simp_all add: floats_ok_def float_ok_def)
  have h3: "\<not> hub_override ''ENBR'' ''ENBR 121350Z''" by (simp add: hub_override_def)
  then have h4: "hub_override ''ENBR'' ''ENBR 121350Z'' \<longrightarrow> list_ex valid_choice []" by simp
  from select_runway_directional_returns [OF h0 h2 h4] h0 h2 h3 show ?thesis by blast
qed


section \<open>Variable wind\<close>

lemma runway_minima_ok:
  "list_all numbered rs \<Longrightarrow>
   runway_minima rs = Inr (map (\<lambda>r. min (number_of (rwy1 r)) (number_of (rwy2 r))) rs)"
  by (induction rs) (simp_all add: numbered_def)

lemma py_min_ok: "xs \<noteq> [] \<Longrightarrow> py_min xs = Inr (Min (set xs))"
  by (cases xs) (simp_all add: py_min_def Min.set_eq_fold [symmetric])

lemma pick_lowest_ok: "numbered r \<Longrightarrow> pick_lowest lowest r sel = Inr (pick lowest r sel)"
  by (simp add: pick_lowest_def pick_def numbered_def)

lemma for_each_pick:
  "list_all numbered rs \<Longrightarrow> for_each (pick_lowest lowest) rs sel = Inr (fold (pick lowest) rs sel)"
  by (induction rs arbitrary: sel) (simp_all add: pick_lowest_ok)

lemma fold_pick:
  "fold (pick lowest) rs sel = sel' \<Longrightarrow>
     (sel' = sel \<and> (\<forall>r \<in> set rs. number_of (rwy1 r) \<noteq> lowest \<and> number_of (rwy2 r) \<noteq> lowest))
   \<or> (\<exists>pre r post. rs = pre @ r # post
        \<and> (\<forall>r' \<in> set post. number_of (rwy1 r') \<noteq> lowest \<and> number_of (rwy2 r') \<noteq> lowest)
        \<and> (number_of (rwy1 r) = lowest \<or> number_of (rwy2 r) = lowest)
        \<and> sel' = Some (if number_of (rwy1 r) = lowest then rwy1 r else rwy2 r))"
proof (induction rs arbitrary: sel)
  case Nil
  then show ?case by simp
next
  case (Cons r rs)
  then have f: "fold (pick lowest) rs (pick lowest r sel) = sel'" by simp
  from Cons.IH [OF f] consider
      (unchanged) "sel' = pick lowest r sel"
        "\<forall>r \<in> set rs. number_of (rwy1 r) \<noteq> lowest \<and> number_of (rwy2 r) \<noteq> lowest"
    | (found) pre r' post where "rs = pre @ r' # post"
        "\<forall>r'' \<in> set post. number_of (rwy1 r'') \<noteq> lowest \<and> number_of (rwy2 r'') \<noteq> lowest"
        "number_of (rwy1 r') = lowest \<or> number_of (rwy2 r') = lowest"
        "sel' = Some (if number_of (rwy1 r') = lowest then rwy1 r' else rwy2 r')"
    by blast
  then show ?case
  proof cases
    case unchanged
    show ?thesis
    proof (cases "number_of (rwy1 r) = lowest \<or> number_of (rwy2 r) = lowest")
      case True
      then have "r # rs = [] @ r # rs
        \<and> (\<forall>r' \<in> set rs. number_of (rwy1 r') \<noteq> lowest \<and> number_of (rwy2 r') \<noteq> lowest)
        \<and> (number_of (rwy1 r) = lowest \<or> number_of (rwy2 r) = lowest)
        \<and> sel' = Some (if number_of (rwy1 r) = lowest then rwy1 r else rwy2 r)"
        using unchanged by (auto simp: pick_def)
      then show ?thesis by blast
    next
      case False
      then show ?thesis using unchanged by (auto simp: pick_def)
    qed
  next
    case found
    then have "r # rs = (r # pre) @ r' # post
        \<and> (\<forall>r'' \<in> set post. number_of (rwy1 r'') \<noteq> lowest \<and> number_of (rwy2 r'') \<noteq> lowest)
        \<and> (number_of (rwy1 r') = lowest \<or> number_of (rwy2 r') = lowest)
        \<and> sel' = Some (if number_of (rwy1 r') = lowest then rwy1 r' else rwy2 r')"
      by simp
    then show ?thesis by blast
  qed
qed

lemma select_variable_lowest:
  assumes np: "preferred airport = None"
    and ne: "runway_data \<noteq> []"
    and num: "list_all numbered runway_data"
  shows "\<exists>pre r post sel. runway_data = pre @ r # post
      \<and> (sel = rwy1 r \<or> (sel = rwy2 r \<and> number_of (rwy1 r) \<noteq> number_of sel))
      \<and> (\<forall>r' \<in> set post. number_of sel < number_of (rwy1 r') \<and> number_of sel < number_of (rwy2 r'))
      \<and> (\<forall>r' \<in> set runway_data. number_of sel \<le> number_of (rwy1 r') \<and> number_of sel \<le> number_of (rwy2 r'))
      \<and> select_variable airport runway_data w
          = Inr (Rwy sel, ''Wind is '' @ raw_metar w @ '', no preferred runway - using runway '' @ sel, True)"
proof -
  define ns where "ns = map (\<lambda>r. min (number_of (rwy1 r)) (number_of (rwy2 r))) runway_data"
  define lowest where "lowest = Min (set ns)"
  have ns_ne: "ns \<noteq> []" using ne by (simp add: ns_def)
  have m1: "runway_minima runway_data = Inr ns" using num by (simp add: runway_minima_ok ns_def)
  have m2: "py_min ns = Inr lowest" using ns_ne by (simp add: py_min_ok lowest_def)
  have low_le: "lowest \<le> number_of (rwy1 r') \<and> lowest \<le> number_of (rwy2 r')" if "r' \<in> set runway_data" for r'
  proof -
    have "min (number_of (rwy1 r')) (number_of (rwy2 r')) \<in> set ns" using that by (auto simp: ns_def)
    then have "lowest \<le> min (number_of (rwy1 r')) (number_of (rwy2 r'))"
      unfolding lowest_def by (intro Min_le) auto
    then show ?thesis by simp
  qed
  have "lowest \<in> set ns" unfolding lowest_def using ns_ne by (intro Min_in) auto
  then obtain r0 where r0: "r0 \<in> set runway_data" "lowest = min (number_of (rwy1 r0)) (number_of (rwy2 r0))"
    by (auto simp: ns_def)
  then have attained: "\<not> (\<forall>r \<in> set runway_data. number_of (rwy1 r) \<noteq> lowest \<and> number_of (rwy2 r) \<noteq> lowest)"
    by (metis min_def)
  obtain sel' where f: "fold (pick lowest) runway_data None = sel'" by simp
  have m3: "for_each (pick_lowest lowest) runway_data None = Inr sel'"
    using num f by (simp add: for_each_pick)
  from fold_pick [OF f] attained obtain pre r post where
    s: "runway_data = pre @ r # post"
       "\<forall>r' \<in> set post. number_of (rwy1 r') \<noteq> lowest \<and> number_of (rwy2 r') \<noteq> lowest"
       "number_of (rwy1 r) = lowest \<or> number_of (rwy2 r) = lowest"
       "sel' = Some (if number_of (rwy1 r) = lowest then rwy1 r else rwy2 r)"
    by blast
  define sel where "sel = (if number_of (rwy1 r) = lowest then rwy1 r else rwy2 r)"
  have nsel: "number_of sel = lowest" using s(3) by (auto simp: sel_def)
  have c1: "sel = rwy1 r \<or> (sel = rwy2 r \<and> number_of (rwy1 r) \<noteq> number_of sel)"
    using nsel by (auto simp: sel_def)
  have c2: "\<forall>r' \<in> set post. number_of sel < number_of (rwy1 r') \<and> number_of sel < number_of (rwy2 r')"
  proof
    fix r' assume r': "r' \<in> set post"
    then have "r' \<in> set runway_data" by (simp add: s(1))
    from low_le [OF this] s(2) r' show "number_of sel < number_of (rwy1 r') \<and> number_of sel < number_of (rwy2 r')"
      unfolding nsel by (auto simp: order.strict_iff_order)
  qed
  have c3: "\<forall>r' \<in> set runway_data. number_of sel \<le> number_of (rwy1 r') \<and> number_of sel \<le> number_of (rwy2 r')"
    using low_le nsel by simp
  have c4: "select_variable airport runway_data w
          = Inr (Rwy sel, ''Wind is '' @ raw_metar w @ '', no preferred runway - using runway '' @ sel, True)"
    using s(4) by (simp add: select_variable_def np m1 m2 m3 sel_def)
  from s(1) c1 c2 c3 c4 show ?thesis by blast
qed

lemma select_runway_variable:
  "airport \<noteq> ''ENGM'' \<Longrightarrow>
   select_runway fl airport runway_data (Some \<lparr>direction = VRB, speed = s, raw_metar = raw\<rparr>) console
     = (select_variable airport runway_data \<lparr>direction = VRB, speed = s, raw_metar = raw\<rparr>, console)"
  by (simp add: select_runway_def)

lemmas variable_eval =
  select_runway_def select_variable_def preferred_def PREFERRED_RUNWAYS_def
  stripped_number_def py_int_def strip_def is_space_def int_literal_def is_digit_def
  digit_val_def rstrip_def pick_lowest_def py_min_def

text \<open>
  Claim C6, as the specification states it, fails on a tie. With the runways 07L/25R
  and 07R/25L, in this order, the designators 07L and 07R both have the lowest number 7;
  catalog order gives 07L, and \<^verbatim>\<open>select_runway\<close> returns 07R: its loop has no
  \<^verbatim>\<open>break\<close>, so a later runway with the lowest number replaces an earlier one.
\<close>

theorem select_runway_lowest_tie_counterexample:
  "(\<forall>fl. select_runway fl ''ENXX''
      [\<lparr>rwy1 = ''07L'', rwy2 = ''25R'', hdg1 = 70, hdg2 = 250, rwy_airport = ''ENXX''\<rparr>,
       \<lparr>rwy1 = ''07R'', rwy2 = ''25L'', hdg1 = 70, hdg2 = 250, rwy_airport = ''ENXX''\<rparr>]
      (Some \<lparr>direction = VRB, speed = 3, raw_metar = ''ENXX 121350Z VRB03KT''\<rparr>) []
     = (Inr (Rwy ''07R'',
             ''Wind is ENXX 121350Z VRB03KT, no preferred runway - using runway 07R'', True), []))
   \<and> number_of ''07L'' = number_of ''07R''
   \<and> spec_lowest_designator
        [\<lparr>rwy1 = ''07L'', rwy2 = ''25R'', hdg1 = 70, hdg2 = 250, rwy_airport = ''ENXX''\<rparr>,
         \<lparr>rwy1 = ''07R'', rwy2 = ''25L'', hdg1 = 70, hdg2 = 250, rwy_airport = ''ENXX''\<rparr>]
     = Some ''07L''"
  by (simp add: variable_eval spec_lowest_designator_def designators_def number_of_def)

text \<open>
  Claim C6, amended. For every airport other than ENGM with a variable observation and
  no preferred runway (a catalog that is not empty, every designator a number with an
  optional letter suffix): \<^verbatim>\<open>select_runway\<close> returns a designator whose number, the
  letter suffix stripped, is the lowest among all designators of all runways of the
  airport; among equals it is a designator of the last such runway in catalog order, the
  first designator of that runway before its second; and the flag that asks for the
  rationale to be shown is true.
\<close>

theorem select_runway_lowest_designator:
  assumes "airport \<noteq> ''ENGM''"
    and "preferred airport = None"
    and "runway_data \<noteq> []"
    and "list_all numbered runway_data"
  shows "\<exists>pre r post sel. runway_data = pre @ r # post
      \<and> (sel = rwy1 r \<or> (sel = rwy2 r \<and> number_of (rwy1 r) \<noteq> number_of sel))
      \<and> (\<forall>r' \<in> set post. number_of sel < number_of (rwy1 r') \<and> number_of sel < number_of (rwy2 r'))
      \<and> (\<forall>r' \<in> set runway_data.
            number_of sel \<le> number_of (rwy1 r') \<and> number_of sel \<le> number_of (rwy2 r'))
      \<and> select_runway fl airport runway_data
            (Some \<lparr>direction = VRB, speed = s, raw_metar = raw\<rparr>) console
          = (Inr (Rwy sel, ''Wind is '' @ raw @ '', no preferred runway - using runway '' @ sel,
                  True), console)"
  using select_variable_lowest [OF assms(2-4), of "\<lparr>direction = VRB, speed = s, raw_metar = raw\<rparr>"]
  by (simp add: select_runway_variable [OF assms(1)])

theorem select_runway_lowest_designator_witness:
  "''ENXX'' \<noteq> ''ENGM'' \<and> preferred ''ENXX'' = None
   \<and> list_all numbered
        [\<lparr>rwy1 = ''07L'', rwy2 = ''25R'', hdg1 = 70, hdg2 = 250, rwy_airport = ''ENXX''\<rparr>,
         \<lparr>rwy1 = ''07R'', rwy2 = ''25L'', hdg1 = 70, hdg2 = 250, rwy_airport = ''ENXX''\<rparr>]
   \<and> (\<exists>pre r post.
         [\<lparr>rwy1 = ''07L'', rwy2 = ''25R'', hdg1 = 70, hdg2 = 250, rwy_airport = ''ENXX''\<rparr>,
          \<lparr>rwy1 = ''07R'', rwy2 = ''25L'', hdg1 = 70, hdg2 = 250, rwy_airport = ''ENXX''\<rparr>]
           = pre @ r # post
         \<and> ''07R'' = rwy1 r
         \<and> list_all (\<lambda>r'. number_of ''07R'' < number_of (rwy1 r')) post)
   \<and> (\<forall>fl. select_runway fl ''ENXX''
        [\<lparr>rwy1 = ''07L'', rwy2 = ''25R'', hdg1 = 70, hdg2 = 250, rwy_airport = ''ENXX''\<rparr>,
         \<lparr>rwy1 = ''07R'', rwy2 = ''25L'', hdg1 = 70, hdg2 = 250, rwy_airport = ''ENXX''\<rparr>]
        (Some \<lparr>direction = VRB, speed = 3, raw_metar = ''ENXX 121350Z VRB03KT''\<rparr>) []
      = (Inr (Rwy ''07R'',
              ''Wind is ENXX 121350Z VRB03KT, no preferred runway - using runway 07R'', True), []))"
proof -
  let ?r1 = "\<lparr>rwy1 = ''07L'', rwy2 = ''25R'', hdg1 = 70, hdg2 = 250, rwy_airport = ''ENXX''\<rparr>"
  let ?r2 = "\<lparr>rwy1 = ''07R'', rwy2 = ''25L'', hdg1 = 70, hdg2 = 250, rwy_airport = ''ENXX''\<rparr>"
  have n: "number_of ''07L'' = 7" "number_of ''25R'' = 25" "number_of ''07R'' = 7"
    "number_of ''25L'' = 25"
    by (simp_all add: number_of_def variable_eval)
  have h1: "''ENXX'' \<noteq> ''ENGM''" by simp
  have h2: "preferred ''ENXX'' = None" by (simp add: preferred_def PREFERRED_RUNWAYS_def)
  have h3: "[?r1, ?r2] \<noteq> []" by simp
  have h4: "list_all numbered [?r1, ?r2]"
    by (simp add: numbered_def number_of_def variable_eval)
  have res: "select_runway fl ''ENXX'' [?r1, ?r2]
        (Some \<lparr>direction = VRB, speed = 3, raw_metar = ''ENXX 121350Z VRB03KT''\<rparr>) []
      = (Inr (Rwy ''07R'',
              ''Wind is ENXX 121350Z VRB03KT, no preferred runway - using runway 07R'', True), [])" for fl
  proof -
  from select_runway_lowest_designator [OF h1 h2 h3 h4, of fl 3 "''ENXX 121350Z VRB03KT''" "[]"]
  obtain pre r post sel where
    s: "[?r1, ?r2] = pre @ r # post"
    and c: "sel = rwy1 r \<or> (sel = rwy2 r \<and> number_of (rwy1 r) \<noteq> number_of sel)"
    and p: "\<forall>r' \<in> set post. number_of sel < number_of (rwy1 r') \<and> number_of sel < number_of (rwy2 r')"
    and l: "\<forall>r' \<in> set [?r1, ?r2].
            number_of sel \<le> number_of (rwy1 r') \<and> number_of sel \<le> number_of (rwy2 r')"
    and e: "select_runway fl ''ENXX'' [?r1, ?r2]
            (Some \<lparr>direction = VRB, speed = 3, raw_metar = ''ENXX 121350Z VRB03KT''\<rparr>) []
          = (Inr (Rwy sel, ''Wind is '' @ ''ENXX 121350Z VRB03KT''
                    @ '', no preferred runway - using runway '' @ sel, True), [])"
    by blast
  from l have le7: "number_of sel \<le> 7" by (simp add: n)
  from s consider "pre = []" "r = ?r1" "post = [?r2]" | "pre = [?r1]" "r = ?r2" "post = []"
    by (cases pre; cases "tl pre") auto
  then have sel: "sel = ''07R'' \<and> r = ?r2 \<and> pre = [?r1] \<and> post = []"
  proof cases
    case 1
    with p have "number_of sel < 7" by (simp add: n)
    moreover from c 1 have "number_of sel = 7 \<or> number_of sel = 25" by (auto simp: n)
    ultimately show ?thesis by simp
  next
    case 2
    with c have "sel = ''07R'' \<or> sel = ''25L''" by auto
    with le7 have "sel = ''07R''" by (auto simp: n)
    with 2 show ?thesis by simp
  qed
  from e sel show ?thesis by simp
  qed
  have "[?r1, ?r2] = [?r1] @ ?r2 # [] \<and> ''07R'' = rwy1 ?r2
         \<and> list_all (\<lambda>r'. number_of ''07R'' < number_of (rwy1 r')) []"
    by simp
  then have ex: "\<exists>pre r post. [?r1, ?r2] = pre @ r # post \<and> ''07R'' = rwy1 r
         \<and> list_all (\<lambda>r'. number_of ''07R'' < number_of (rwy1 r')) post"
    by blast
  from res h1 h2 h4 ex show ?thesis by blast
qed


section \<open>The store files\<close>

subsection \<open>Reading back what was written\<close>

lemma concat_readlines: "concat (readlines s) = s"
  by (induction s) (auto split: list.splits)

lemma readlines_Nil_iff: "readlines s = [] \<longleftrightarrow> s = []"
  by (cases s) (auto split: list.splits)

lemma readlines_line: "NL \<notin> set body \<Longrightarrow> readlines (body @ NL # rest) = (body @ [NL]) # readlines rest"
  by (induction body) auto

lemma complete_lineD: "complete_line l \<Longrightarrow> \<exists>body. l = body @ [NL] \<and> NL \<notin> set body"
  unfolding complete_line_def by (metis append_butlast_last_id)

lemma readlines_concat: "list_all complete_line ls \<Longrightarrow> readlines (concat ls) = ls"
proof (induction ls)
  case Nil
  then show ?case by simp
next
  case (Cons l ls)
  then obtain body where l: "l = body @ [NL]" "NL \<notin> set body"
    using complete_lineD by auto
  from Cons have "readlines (concat ls) = ls" by simp
  then show ?case using l by (simp add: readlines_line)
qed

lemma readlines_complete:
  "content = [] \<or> last content = NL \<Longrightarrow> list_all complete_line (readlines content)"
proof (induction content)
  case Nil
  then show ?case by simp
next
  case (Cons c cs)
  show ?case
  proof (cases "c = NL")
    case True
    from Cons.prems have "cs = [] \<or> last cs = NL" by (auto split: if_splits)
    with Cons.IH True show ?thesis by (simp add: complete_line_def)
  next
    case False
    with Cons.prems have cs: "cs \<noteq> []" "last cs = NL" by (auto split: if_splits)
    then obtain l ls where r: "readlines cs = l # ls"
      using readlines_Nil_iff [of cs] by (cases "readlines cs") auto
    from Cons.IH cs r have "complete_line l" "list_all complete_line ls" by simp_all
    moreover from \<open>complete_line l\<close> False have "complete_line (c # l)"
      by (auto simp: complete_line_def)
    ultimately show ?thesis using False r by simp
  qed
qed

lemma complete_line_snoc: "NL \<notin> set body \<Longrightarrow> complete_line (body @ [NL])"
  by (simp add: complete_line_def)

text \<open>
  When the file is empty or ends with a line end (and neither the airport nor the
  designator holds one), the update does what is asked of it: the records of the
  airport are gone, the other lines stand as they were and in their order, and the two
  new records follow.
\<close>

lemma update_rwy_file_terminated:
  assumes "content = [] \<or> last content = NL"
    and "NL \<notin> set airport" and "NL \<notin> set runway"
  shows "readlines (update_rwy_file content airport runway) =
           filter (\<lambda>line. \<not> keyed airport line) (readlines content)
           @ [''ACTIVE_RUNWAY:'' @ airport @ '':'' @ runway @ '':1'' @ [NL],
              ''ACTIVE_RUNWAY:'' @ airport @ '':'' @ runway @ '':0'' @ [NL]]"
proof -
  have "list_all complete_line (filter (\<lambda>line. \<not> keyed airport line) (readlines content))"
    using readlines_complete [OF assms(1)] by (simp add: list_all_iff)
  moreover have "complete_line ((''ACTIVE_RUNWAY:'' @ airport @ '':'' @ runway @ '':1'') @ [NL])"
    "complete_line ((''ACTIVE_RUNWAY:'' @ airport @ '':'' @ runway @ '':0'') @ [NL])"
    by (rule complete_line_snoc, use assms(2,3) in \<open>simp add: NL_def\<close>)+
  ultimately have "list_all complete_line
      (filter (\<lambda>line. \<not> keyed airport line) (readlines content)
       @ [''ACTIVE_RUNWAY:'' @ airport @ '':'' @ runway @ '':1'' @ [NL],
          ''ACTIVE_RUNWAY:'' @ airport @ '':'' @ runway @ '':0'' @ [NL]])"
    by simp
  from readlines_concat [OF this] show ?thesis
    by (simp add: update_rwy_file_def writelines_def keyed_def Let_def)
qed

lemmas store_eval =
  update_rwy_file_def update_engm_runways_def writelines_def item_def startswith_def NL_def

text \<open>
  Claim C10 holds for a file that ends with a line end (lemma
  \<open>update_rwy_file_terminated\<close>), and fails for one that does not: \<^verbatim>\<open>readlines\<close> keeps
  the last line without a line end and \<^verbatim>\<open>writelines\<close> adds none, so the first new
  record is written onto the end of that line. Here the store holds the two records of
  ENVA and does not end with a line end. After the update for ENBR with runway 17 the
  arrival record of ENVA has become \<^verbatim>\<open>ACTIVE_RUNWAY:ENVA:09:0ACTIVE_RUNWAY:ENBR:17:1\<close>:
  a line of another airport is changed, and ENBR has one record of its own, not two.
  A second update for ENBR, with runway 35, leaves that line in place, the stale text for
  runway 17 in it.
\<close>

theorem update_rwy_file_unterminated:
  "readlines (update_rwy_file
       (''ACTIVE_RUNWAY:ENVA:09:1'' @ [NL] @ ''ACTIVE_RUNWAY:ENVA:09:0'') ''ENBR'' ''17'')
     = [''ACTIVE_RUNWAY:ENVA:09:1'' @ [NL],
        ''ACTIVE_RUNWAY:ENVA:09:0ACTIVE_RUNWAY:ENBR:17:1'' @ [NL],
        ''ACTIVE_RUNWAY:ENBR:17:0'' @ [NL]]
   \<and> readlines (update_rwy_file (update_rwy_file
       (''ACTIVE_RUNWAY:ENVA:09:1'' @ [NL] @ ''ACTIVE_RUNWAY:ENVA:09:0'') ''ENBR'' ''17'')
         ''ENBR'' ''35'')
     = [''ACTIVE_RUNWAY:ENVA:09:1'' @ [NL],
        ''ACTIVE_RUNWAY:ENVA:09:0ACTIVE_RUNWAY:ENBR:17:1'' @ [NL],
        ''ACTIVE_RUNWAY:ENBR:35:1'' @ [NL],
        ''ACTIVE_RUNWAY:ENBR:35:0'' @ [NL]]"
  by (simp add: store_eval)


section \<open>The orchestrator\<close>

lemma update_all_total: "update_all (\<lambda>c. Inr (g c)) fs = (map g fs, None)"
  by (induction fs) simp_all

lemma update_store_ordinary:
  "airport \<noteq> ''ENGM'' \<Longrightarrow>
   update_store airport sel message = (\<lambda>c. Inr (update_rwy_file c airport (py_str sel)))"
  by (rule ext) (simp add: update_store_def)

lemmas main_eval =
  main_def update_store_def update_engm_runways_def update_rwy_file_def writelines_def
  item_def startswith_def NL_def IGNORED_AIRPORTS_def

subsection \<open>ENGM, segregated operations\<close>

text \<open>
  Claim C1 is right about the selection and the code is wrong about the records.
  For ENGM with \<^verbatim>\<open>VRB05KT\<close> and no freezing-fog code the console is asked, and the answer
  \<open>3\<close> gives the pair 19L, 19R with the message \<^verbatim>\<open>Using SPO mode with runways 19L, 19R\<close>.
  \<^verbatim>\<open>main\<close> then reads the mode back from the message: it looks for \<^verbatim>\<open>Segregated\<close>, which the
  message never holds, then for \<^verbatim>\<open>MPO\<close>, and so takes the mode for \<^verbatim>\<open>SRO\<close>. The store gets
  \<^verbatim>\<open>ENGM_ARR:19L\<close> and \<^verbatim>\<open>ENGM_DEP:19L\<close>, where \<^verbatim>\<open>update_engm_runways\<close> called with
  \<^verbatim>\<open>SPO\<close> would have written \<^verbatim>\<open>ENGM_ARR:19R\<close> and \<^verbatim>\<open>ENGM_DEP:19L\<close>.
\<close>

theorem main_engm_segregated:
  "\<forall>fl.
   select_runway fl ''ENGM''
      [\<lparr>rwy1 = ''01L'', rwy2 = ''19R'', hdg1 = 14, hdg2 = 194, rwy_airport = ''ENGM''\<rparr>,
       \<lparr>rwy1 = ''01R'', rwy2 = ''19L'', hdg1 = 14, hdg2 = 194, rwy_airport = ''ENGM''\<rparr>]
      (Some \<lparr>direction = VRB, speed = 5, raw_metar = ''ENGM 121350Z VRB05KT CAVOK''\<rparr>) [''3'']
     = (Inr (Rwys [''19L'', ''19R''], ''Using SPO mode with runways 19L, 19R'', True), [])
   \<and> main fl
      [(''ENGM'',
        [\<lparr>rwy1 = ''01L'', rwy2 = ''19R'', hdg1 = 14, hdg2 = 194, rwy_airport = ''ENGM''\<rparr>,
         \<lparr>rwy1 = ''01R'', rwy2 = ''19L'', hdg1 = 14, hdg2 = 194, rwy_airport = ''ENGM''\<rparr>])]
      [''ENGM'' \<mapsto> \<lparr>direction = VRB, speed = 5, raw_metar = ''ENGM 121350Z VRB05KT CAVOK''\<rparr>]
      \<lparr>files = [''ENGM_ARR:01L,01R'' @ [NL] @ ''ENGM_DEP:01L,01R'' @ [NL]], stdin = [''3'']\<rparr>
     = (\<lparr>files = [''ENGM_ARR:19L'' @ [NL] @ ''ENGM_DEP:19L'' @ [NL]], stdin = []\<rparr>, None)
   \<and> update_engm_runways (''ENGM_ARR:01L,01R'' @ [NL] @ ''ENGM_DEP:01L,01R'' @ [NL])
        [''19L'', ''19R''] ''SPO''
     = Inr (''ENGM_ARR:19R'' @ [NL] @ ''ENGM_DEP:19L'' @ [NL])"
  by (simp add: select_runway_def main_eval)

subsection \<open>ENZV\<close>

lemma cos77_upper: "cos (77 * pi / 180) < 1 / 2"
proof -
  have "cos (77 * pi / 180) < cos (pi / 3)"
    by (rule cos_monotone_0_pi) (use pi_gt_zero in auto)
  then show ?thesis by (simp add: cos_60)
qed

lemma cos77_lower: "1 / 10 < cos (77 * pi / 180)"
proof -
  define x :: real where "x = 13 * pi / 180"
  have c: "cos (77 * pi / 180) = sin x"
    unfolding x_def by (simp add: sin_cos_eq field_simps)
  have lo: "13 / 90 \<le> x" unfolding x_def using pi_ge_two by simp
  have hi: "x \<le> 13 / 45" unfolding x_def using pi_less_4 by simp
  have x0: "0 \<le> x" using lo by simp
  have "\<bar>sin x - (\<Sum>m<3. sin_coeff m * x ^ m)\<bar> \<le> inverse (fact 3) * \<bar>x\<bar> ^ 3"
    by (rule Maclaurin_sin_bound)
  moreover have "(\<Sum>m<3. sin_coeff m * x ^ m) = x"
    by (simp add: sin_coeff_def numeral_3_eq_3)
  moreover have "inverse (fact 3) = (1 / 6 :: real)"
    by (simp add: numeral_3_eq_3)
  ultimately have m: "\<bar>sin x - x\<bar> \<le> x ^ 3 / 6" using x0 by simp
  have "x ^ 3 \<le> (13 / 45) ^ 3" using hi x0 by (rule power_mono)
  then have "x ^ 3 / 6 \<le> 1 / 100" by (simp add: power3_eq_cube)
  with m lo have "1 / 10 < sin x" by linarith
  with c show ?thesis by simp
qed

lemma enzv_true_components:
  "true_headwind 177 100 10 = 10 * cos (77 * pi / 180)"
  "true_headwind 357 100 10 = - (10 * cos (77 * pi / 180))"
  "true_headwind 280 100 10 = - 10"
  "true_crosswind 177 100 10 \<le> 10"
proof -
  show "true_headwind 177 100 10 = 10 * cos (77 * pi / 180)"
    by (simp add: true_headwind_def)
  have e: "257 * pi / 180 = 77 * pi / 180 + pi" by simp
  have "cos (257 * pi / 180) = - cos (77 * pi / 180)"
    unfolding e by (rule cos_periodic_pi)
  then show "true_headwind 357 100 10 = - (10 * cos (77 * pi / 180))"
    by (simp add: true_headwind_def)
  show "true_headwind 280 100 10 = - 10"
    by (simp add: true_headwind_def)
  have "\<bar>sin (77 * pi / 180)\<bar> \<le> 1" by simp
  then show "true_crosswind 177 100 10 \<le> 10"
    by (simp add: true_crosswind_def abs_mult)
qed

lemma enzv_error_bound:
  assumes "0 \<le> eps" and "eps \<le> 1 / 10 ^ 6"
  shows "error_bound eps 177 100 10 \<le> 1 / 50" "error_bound eps 357 100 10 \<le> 1 / 50"
    "error_bound eps 280 100 10 \<le> 1 / 50"
  using assms by (simp_all add: error_bound_def)

lemma enzv_components:
  assumes acc: "accurate fl eps" and le: "eps \<le> 1 / 10 ^ 6"
  shows "headwind fl 357 100 10 < headwind fl 177 100 10"
    and "headwind fl 177 100 10 < 10"
    and "headwind fl 280 100 10 < 10"
    and "crosswind fl 177 100 10 \<le> 11"
    and "headwind fl 100 100 10 = 10"
    and "crosswind fl 100 100 10 = 0"
proof -
  have e: "0 \<le> eps" using acc by (rule accurate_nonneg)
  have le1: "eps \<le> 1" using le by simp
  have sm: "small 177" "small 357" "small 280" "small 100" "small 10"
    by (simp_all add: small_def)
  note b = enzv_error_bound [OF e le]
  have h18: "\<bar>headwind fl 177 100 10 - 10 * cos (77 * pi / 180)\<bar> \<le> 1 / 50"
    using headwind_error [OF acc le1 sm(1) sm(4) sm(5)] b(1)
    by (simp only: enzv_true_components(1))
  have h36: "\<bar>headwind fl 357 100 10 - - (10 * cos (77 * pi / 180))\<bar> \<le> 1 / 50"
    using headwind_error [OF acc le1 sm(2) sm(4) sm(5)] b(2)
    by (simp only: enzv_true_components(2))
  have h28: "\<bar>headwind fl 280 100 10 - - 10\<bar> \<le> 1 / 50"
    using headwind_error [OF acc le1 sm(3) sm(4) sm(5)] b(3)
    by (simp only: enzv_true_components(3))
  have x18: "\<bar>crosswind fl 177 100 10 - true_crosswind 177 100 10\<bar> \<le> 1 / 50"
    using crosswind_error [OF acc le1 sm(1) sm(4) sm(5)] b(1) by simp
  from h18 h36 cos77_lower show "headwind fl 357 100 10 < headwind fl 177 100 10" by linarith
  from h18 cos77_upper show "headwind fl 177 100 10 < 10" by linarith
  from h28 show "headwind fl 280 100 10 < 10" by linarith
  from x18 enzv_true_components(4) show "crosswind fl 177 100 10 \<le> 11" by linarith
  show "headwind fl 100 100 10 = 10" "crosswind fl 100 100 10 = 0"
    by (simp_all add: aligned_components float_of_def)
qed

text \<open>
  Claim C3 describes \<^verbatim>\<open>select_runway_enzv\<close>, and that function is never called:
  \<^verbatim>\<open>main\<close> sends ENZV through \<^verbatim>\<open>select_runway\<close> like every other airport. The two
  disagree. With the wind from 100 at 10 knots the ENZV rule takes 18 (the better of
  18/36, its crosswind below 15 knots), while \<^verbatim>\<open>select_runway\<close> returns 10, the heading
  of greatest headwind, and that is what \<^verbatim>\<open>main\<close> writes to the store. This holds on
  every float unit whose operations are accurate to one part in a million, as those of
  double precision are.
\<close>

theorem main_enzv_general_algorithm:
  assumes "accurate fl eps" and "eps \<le> 1 / 10 ^ 6"
  shows "select_runway_enzv fl
      (Some \<lparr>direction = Deg 100, speed = 10, raw_metar = ''ENZV 121350Z 10010KT''\<rparr>)
     = Inr ''18''
   \<and> select_runway fl ''ENZV''
      [\<lparr>rwy1 = ''18'', rwy2 = ''36'', hdg1 = 177, hdg2 = 357, rwy_airport = ''ENZV''\<rparr>,
       \<lparr>rwy1 = ''10'', rwy2 = ''28'', hdg1 = 100, hdg2 = 280, rwy_airport = ''ENZV''\<rparr>]
      (Some \<lparr>direction = Deg 100, speed = 10, raw_metar = ''ENZV 121350Z 10010KT''\<rparr>) []
     = (Inr (Rwy ''10'', ''Selected runway 10 based on wind 100@10KT'', False), [])
   \<and> main fl
      [(''ENZV'',
        [\<lparr>rwy1 = ''18'', rwy2 = ''36'', hdg1 = 177, hdg2 = 357, rwy_airport = ''ENZV''\<rparr>,
         \<lparr>rwy1 = ''10'', rwy2 = ''28'', hdg1 = 100, hdg2 = 280, rwy_airport = ''ENZV''\<rparr>])]
      [''ENZV'' \<mapsto> \<lparr>direction = Deg 100, speed = 10, raw_metar = ''ENZV 121350Z 10010KT''\<rparr>]
      \<lparr>files = [''ACTIVE_RUNWAY:ENZV:18:1'' @ [NL] @ ''ACTIVE_RUNWAY:ENZV:18:0'' @ [NL]],
         stdin = []\<rparr>
     = (\<lparr>files = [''ACTIVE_RUNWAY:ENZV:10:1'' @ [NL] @ ''ACTIVE_RUNWAY:ENZV:10:0'' @ [NL]],
          stdin = []\<rparr>, None)"
proof -
  let ?obs = "\<lparr>direction = Deg 100, speed = 10, raw_metar = ''ENZV 121350Z 10010KT''\<rparr>"
  let ?cat = "[\<lparr>rwy1 = ''18'', rwy2 = ''36'', hdg1 = 177, hdg2 = 357, rwy_airport = ''ENZV''\<rparr>,
       \<lparr>rwy1 = ''10'', rwy2 = ''28'', hdg1 = 100, hdg2 = 280, rwy_airport = ''ENZV''\<rparr>]"
  note k = enzv_components [OF assms]
  have ok: "float_ok 177" "float_ok 357" "float_ok 100" "float_ok 280" "float_ok 10"
    by (simp_all add: float_ok_def)
  have cwc: "calculate_wind_components fl 177 100 10
               = Inr (headwind fl 177 100 10, crosswind fl 177 100 10)"
    "calculate_wind_components fl 357 100 10
               = Inr (headwind fl 357 100 10, crosswind fl 357 100 10)"
    "calculate_wind_components fl 100 100 10 = Inr (10, 0)"
    "calculate_wind_components fl 280 100 10
               = Inr (headwind fl 280 100 10, crosswind fl 280 100 10)"
    by (simp_all add: cwc_ok ok k(5) k(6))
  have x15: "\<not> 15 < crosswind fl 177 100 10" "crosswind fl 177 100 10 \<le> 25"
    using k(4) by linarith+
  have a: "select_runway_enzv fl (Some ?obs) = Inr ''18''"
    by (simp add: select_runway_enzv_def cwc k(1) x15)
  have b: "select_runway fl ''ENZV'' ?cat (Some ?obs) []
     = (Inr (Rwy ''10'', ''Selected runway 10 based on wind 100@10KT'', False), [])"
    by (simp add: select_runway_def select_directional_def consider_runway_def cwc k(1) k(2) k(3)
        x15 falsy_def to_selected_def py_str_def py_str_int_def digit_char_def)
  have c: "main fl [(''ENZV'', ?cat)] [''ENZV'' \<mapsto> ?obs]
      \<lparr>files = [''ACTIVE_RUNWAY:ENZV:18:1'' @ [NL] @ ''ACTIVE_RUNWAY:ENZV:18:0'' @ [NL]],
         stdin = []\<rparr>
     = (\<lparr>files = [''ACTIVE_RUNWAY:ENZV:10:1'' @ [NL] @ ''ACTIVE_RUNWAY:ENZV:10:0'' @ [NL]],
          stdin = []\<rparr>, None)"
    by (simp add: main_def IGNORED_AIRPORTS_def b update_store_def update_rwy_file_def
        writelines_def startswith_def NL_def py_str_def)
  from a b c show ?thesis by simp
qed

text \<open>
  The witness is the float unit that does not round: on it the ENZV rule gives 18 and
  \<^verbatim>\<open>main\<close> writes 10.
\<close>

theorem main_enzv_general_algorithm_witness:
  "accurate exact_unit 0
   \<and> select_runway_enzv exact_unit
      (Some \<lparr>direction = Deg 100, speed = 10, raw_metar = ''ENZV 121350Z 10010KT''\<rparr>)
     = Inr ''18''
   \<and> select_runway exact_unit ''ENZV''
      [\<lparr>rwy1 = ''18'', rwy2 = ''36'', hdg1 = 177, hdg2 = 357, rwy_airport = ''ENZV''\<rparr>,
       \<lparr>rwy1 = ''10'', rwy2 = ''28'', hdg1 = 100, hdg2 = 280, rwy_airport = ''ENZV''\<rparr>]
      (Some \<lparr>direction = Deg 100, speed = 10, raw_metar = ''ENZV 121350Z 10010KT''\<rparr>) []
     = (Inr (Rwy ''10'', ''Selected runway 10 based on wind 100@10KT'', False), [])
   \<and> main exact_unit
      [(''ENZV'',
        [\<lparr>rwy1 = ''18'', rwy2 = ''36'', hdg1 = 177, hdg2 = 357, rwy_airport = ''ENZV''\<rparr>,
         \<lparr>rwy1 = ''10'', rwy2 = ''28'', hdg1 = 100, hdg2 = 280, rwy_airport = ''ENZV''\<rparr>])]
      [''ENZV'' \<mapsto> \<lparr>direction = Deg 100, speed = 10, raw_metar = ''ENZV 121350Z 10010KT''\<rparr>]
      \<lparr>files = [''ACTIVE_RUNWAY:ENZV:18:1'' @ [NL] @ ''ACTIVE_RUNWAY:ENZV:18:0'' @ [NL]],
         stdin = []\<rparr>
     = (\<lparr>files = [''ACTIVE_RUNWAY:ENZV:10:1'' @ [NL] @ ''ACTIVE_RUNWAY:ENZV:10:0'' @ [NL]],
          stdin = []\<rparr>, None)"
proof -
  have a: "accurate exact_unit 0" by (simp add: accurate_exact_unit)
  have b: "(0 :: real) \<le> 1 / 10 ^ 6" by simp
  from a main_enzv_general_algorithm [OF a b] show ?thesis by blast
qed

subsection \<open>An airport without an observation\<close>

text \<open>
  Claim C4, as the specification states it, fails. ENBR is known, not ignored and has a
  runway; with no observation for it the policy would select the preferred runway 17,
  and committing that would write two records. \<^verbatim>\<open>main\<close> does neither: its guard
  \<^verbatim>\<open>if wind_data\<close> skips the airport, and the store is left as it was.
\<close>

theorem main_no_observation_counterexample:
  "''ENBR'' \<notin> set IGNORED_AIRPORTS
   \<and> (\<forall>fl. select_runway fl ''ENBR''
        [\<lparr>rwy1 = ''17'', rwy2 = ''35'', hdg1 = 170, hdg2 = 350, rwy_airport = ''ENBR''\<rparr>] None []
      = (Inr (Rwy ''17'', ''No wind data available - using preferred runway 17'', True), []))
   \<and> update_rwy_file [] ''ENBR'' ''17''
      = ''ACTIVE_RUNWAY:ENBR:17:1'' @ [NL] @ ''ACTIVE_RUNWAY:ENBR:17:0'' @ [NL]
   \<and> (\<forall>fl. main fl
        [(''ENBR'',
          [\<lparr>rwy1 = ''17'', rwy2 = ''35'', hdg1 = 170, hdg2 = 350, rwy_airport = ''ENBR''\<rparr>])]
        Map.empty \<lparr>files = [[]], stdin = []\<rparr>
      = (\<lparr>files = [[]], stdin = []\<rparr>, None))"
  by (simp add: select_runway_def preferred_def PREFERRED_RUNWAYS_def main_eval)

text \<open>
  Claim C4, amended. An airport for which no observation is available (the fetch
  failed or the report did not parse) is skipped: the policy is not invoked for it and
  no store is changed. For a known airport that is not ignored, is not ENGM and has an
  observation, \<^verbatim>\<open>main\<close> invokes the policy with that observation and commits the
  selection to every target store by the single-key overwrite.
\<close>

theorem process_airports_needs_observation:
  "(all_metars airport = None \<longrightarrow>
      process_airports fl ((airport, runway_data) # rest) all_metars w
        = process_airports fl rest all_metars w)
   \<and> (all_metars airport = None \<longrightarrow>
      main fl [(airport, runway_data)] all_metars w
        = (if files w = [] then w else w\<lparr>stdin := drop 1 (stdin w)\<rparr>, None))
   \<and> (airport \<notin> set IGNORED_AIRPORTS \<and> airport \<noteq> ''ENGM''
        \<and> all_metars airport = Some wind
        \<and> select_runway fl airport runway_data (Some wind) (stdin w)
            = (Inr (sel, message, should_print), console) \<longrightarrow>
      process_airports fl ((airport, runway_data) # rest) all_metars w
        = process_airports fl rest all_metars
            \<lparr>files = map (\<lambda>content. update_rwy_file content airport (py_str sel)) (files w),
               stdin = console\<rparr>)"
  by (simp add: main_def update_store_ordinary update_all_total)

theorem process_airports_needs_observation_witness:
  "\<forall>fl.
   main fl
      [(''ENBR'',
        [\<lparr>rwy1 = ''17'', rwy2 = ''35'', hdg1 = 170, hdg2 = 350, rwy_airport = ''ENBR''\<rparr>])]
      Map.empty \<lparr>files = [''ACTIVE_RUNWAY:ENBR:35:1'' @ [NL]], stdin = []\<rparr>
     = (\<lparr>files = [''ACTIVE_RUNWAY:ENBR:35:1'' @ [NL]], stdin = []\<rparr>, None)
   \<and> ''ENBR'' \<notin> set IGNORED_AIRPORTS
   \<and> process_airports fl
      [(''ENBR'',
        [\<lparr>rwy1 = ''17'', rwy2 = ''35'', hdg1 = 170, hdg2 = 350, rwy_airport = ''ENBR''\<rparr>])]
      [''ENBR'' \<mapsto> \<lparr>direction = Deg 0, speed = 0, raw_metar = ''ENBR 121350Z 00000KT''\<rparr>]
      \<lparr>files = [[]], stdin = []\<rparr>
     = (\<lparr>files = [''ACTIVE_RUNWAY:ENBR:35:1'' @ [NL] @ ''ACTIVE_RUNWAY:ENBR:35:0'' @ [NL]],
          stdin = []\<rparr>, None)"
proof
  fix fl
  let ?cat = "[\<lparr>rwy1 = ''17'', rwy2 = ''35'', hdg1 = 170, hdg2 = 350, rwy_airport = ''ENBR''\<rparr>]"
  let ?obs = "\<lparr>direction = Deg 0, speed = 0, raw_metar = ''ENBR 121350Z 00000KT''\<rparr>"
  let ?w = "\<lparr>files = [''ACTIVE_RUNWAY:ENBR:35:1'' @ [NL]], stdin = []\<rparr>"
  have none: "Map.empty ''ENBR'' = (None :: wind_data option)" by simp
  from process_airports_needs_observation
         [of Map.empty "''ENBR''" fl ?cat "[]" ?w] none
  have a: "main fl [(''ENBR'', ?cat)] Map.empty ?w = (?w, None)" by simp
  have ni: "''ENBR'' \<notin> set IGNORED_AIRPORTS" by (simp add: IGNORED_AIRPORTS_def)
  have sel: "select_runway fl ''ENBR'' ?cat (Some ?obs) (stdin \<lparr>files = [[]], stdin = []\<rparr>)
      = (Inr (Rwy ''35'', ''Selected runway 35 based on wind 0@0KT'', False), [])"
    by (simp add: directional_eval calm_cwc calm_components float_ok_def)
  from process_airports_needs_observation
         [of "[''ENBR'' \<mapsto> ?obs]" "''ENBR''" fl ?cat "[]" "\<lparr>files = [[]], stdin = []\<rparr>"
             ?obs "Rwy ''35''" "''Selected runway 35 based on wind 0@0KT''" False "[]"]
       ni sel
  have b: "process_airports fl [(''ENBR'', ?cat)] [''ENBR'' \<mapsto> ?obs] \<lparr>files = [[]], stdin = []\<rparr>
     = (\<lparr>files = [''ACTIVE_RUNWAY:ENBR:35:1'' @ [NL] @ ''ACTIVE_RUNWAY:ENBR:35:0'' @ [NL]],
          stdin = []\<rparr>, None)"
    by (simp add: update_rwy_file_def writelines_def py_str_def)
  from a ni b show "main fl [(''ENBR'', ?cat)] Map.empty ?w = (?w, None)
   \<and> ''ENBR'' \<notin> set IGNORED_AIRPORTS
   \<and> process_airports fl [(''ENBR'', ?cat)]
      [''ENBR'' \<mapsto> ?obs] \<lparr>files = [[]], stdin = []\<rparr>
     = (\<lparr>files = [''ACTIVE_RUNWAY:ENBR:35:1'' @ [NL] @ ''ACTIVE_RUNWAY:ENBR:35:0'' @ [NL]],
          stdin = []\<rparr>, None)" by simp
qed

end
